theory Spec2Isabelle
  imports Complex_Main "HOL-Library.AList"
begin

section \<open>Python values\<close>

text \<open>
  The three source files are Python. Python's \<open>int\<close> is modelled as \<^typ>\<open>int\<close>
  (\<open>nat\<close> for counters that only grow from 0), a \<open>str\<close> as \<^typ>\<open>string\<close>, a \<open>dict\<close> as
  an association list with distinct keys in insertion order (\<open>d[k] = v\<close> is
  \<^const>\<open>AList.update\<close>: it replaces in place or appends), and a \<open>float\<close> as a
  \<^typ>\<open>real\<close>. The control flow, the comparisons and the decimal rounding
  (\<open>round(x, n)\<close>) are inside the model. Where the result of float arithmetic is afterwards
  rounded to decimals or truncated to an \<open>int\<close> (the angle and the radar point of a
  detection, the scaling and the distance of a box), every operation is followed by
  \<open>fl\<close>, the rounding to the nearest binary64 number, so that the digits logged are the
  digits the program logs; the functions \<open>get_distance_meters\<close> and \<open>update_speed\<close>
  themselves are kept over the reals.
  An exception is a value of \<open>py_error\<close>; a function that can raise returns a sum.
\<close>

datatype py_error = ZeroDivisionError | ExternalError

text \<open>\<open>a / b\<close> on Python numbers: raises on a zero divisor.\<close>

definition truediv :: "real \<Rightarrow> real \<Rightarrow> py_error + real" where
  "truediv a b = (if b = 0 then Inl ZeroDivisionError else Inr (a / b))"

text \<open>\<open>round(x, ndigits)\<close>: to the nearest multiple of \<open>10^-ndigits\<close>, ties to even.\<close>

definition round_half_even :: "real \<Rightarrow> int" where
  "round_half_even x =
     (let f = \<lfloor>x\<rfloor>; r = x - of_int f
      in if r < 1/2 then f else if 1/2 < r then f + 1 else if even f then f else f + 1)"

definition py_round :: "real \<Rightarrow> nat \<Rightarrow> real" where
  "py_round x ndigits = of_int (round_half_even (x * 10 ^ ndigits)) / 10 ^ ndigits"

text \<open>\<open>int(x)\<close> on a float: truncation towards zero.\<close>

definition py_int :: "real \<Rightarrow> int" where
  "py_int x = (if 0 \<le> x then \<lfloor>x\<rfloor> else \<lceil>x\<rceil>)"

text \<open>The binary exponent \<open>e\<close> of a number, \<open>2^e \<le> |x| < 2^(e+1)\<close>, found by halving or
  doubling at most as often as binary64 has exponents.\<close>

fun exp_up :: "nat \<Rightarrow> real \<Rightarrow> int \<Rightarrow> int" where
  "exp_up n x e = (if n = 0 \<or> x < 2 then e else exp_up (n - 1) (x / 2) (e + 1))"

fun exp_down :: "nat \<Rightarrow> real \<Rightarrow> int \<Rightarrow> int" where
  "exp_down n x e = (if n = 0 \<or> 1 \<le> x then e else exp_down (n - 1) (x * 2) (e - 1))"

declare exp_up.simps [simp del] exp_down.simps [simp del]

definition float_exponent :: "real \<Rightarrow> int" where
  "float_exponent x = (if 1 \<le> \<bar>x\<bar> then exp_up 1024 \<bar>x\<bar> 0 else exp_down 1075 \<bar>x\<bar> 0)"

text \<open>The distance between neighbouring binary64 numbers around \<open>x\<close> (53 significant
  bits), and the rounding of a real to the nearest binary64 number, ties to the even
  significand: what every float operation of Python returns for the exact result \<open>x\<close>.
  Overflow and the subnormal range, which no value of the loop reaches, are not
  modelled.\<close>

definition ulp :: "real \<Rightarrow> real" where
  "ulp x = (let k = float_exponent x - 52 in if 0 \<le> k then 2 ^ nat k else 1 / 2 ^ nat (- k))"

definition fl :: "real \<Rightarrow> real" where
  "fl x = (if x = 0 then 0 else of_int (round_half_even (x / ulp x)) * ulp x)"

text \<open>A float that may be \<open>float('inf')\<close>, as the initial nearest distance is.\<close>

datatype pyfloat = Finite real | Infinity

text \<open>\<open>x < y\<close> for a finite \<open>x\<close> and a possibly infinite \<open>y\<close>.\<close>

definition float_lt :: "real \<Rightarrow> pyfloat \<Rightarrow> bool" where
  "float_lt x y = (case y of Infinity \<Rightarrow> True | Finite r \<Rightarrow> x < r)"

text \<open>What \<open>json.dump\<close> writes and \<open>json.load\<close> returns.\<close>

datatype json =
    JNull
  | JBool bool
  | JInt int
  | JFloat real
  | JInfinity
  | JStr string
  | JArr "json list"
  | JObj "(string \<times> json) list"

text \<open>\<open>collections.deque(maxlen=n)\<close>: \<open>append\<close> adds on the right and, when the
  length then exceeds \<open>maxlen\<close>, drops one item on the left.\<close>

datatype 'a deque = Deque (maxlen: nat) (items: "'a list")

definition deque_append :: "'a deque \<Rightarrow> 'a \<Rightarrow> 'a deque" where
  "deque_append dq x =
     (let xs = items dq @ [x]
      in Deque (maxlen dq) (if maxlen dq < length xs then tl xs else xs))"

section \<open>insect.py: configuration and helpers\<close>

definition MAX_TRAIL :: nat where
  "MAX_TRAIL = 30"

definition RADAR_SIZE :: int where
  "RADAR_SIZE = 300"

definition RADAR_RANGE_M :: real where
  "RADAR_RANGE_M = 1"

text \<open>Lines 88--91. The division is the fallible one, so that a zero divisor would show
  as \<open>Inl ZeroDivisionError\<close>.\<close>

definition get_distance_meters :: "real \<Rightarrow> real \<Rightarrow> real \<Rightarrow> py_error + real" where
  "get_distance_meters width_px real_width_m focal_px =
     (if width_px \<le> 0 \<or> focal_px \<le> 0 \<or> real_width_m \<le> 0 then Inr 0
      else truediv (real_width_m * focal_px) width_px)"

section \<open>insect.py: the state of the capture loop\<close>

text \<open>A detection is the tuple \<open>(x1, y1, x2, y2, label, distance_m, conf)\<close> of line 182.\<close>

type_synonym detection = "int \<times> int \<times> int \<times> int \<times> string \<times> real \<times> real"

definition label_of :: "detection \<Rightarrow> string" where
  "label_of d = (case d of (x1, y1, x2, y2, lbl, distance_m, conf) \<Rightarrow> lbl)"

text \<open>Lines 16--24 of the configuration.\<close>

definition INFER_RES :: nat where
  "INFER_RES = 640"

definition MIN_BOX_SIZE :: int where
  "MIN_BOX_SIZE = 10"

definition CLASS_LABELS :: "(int \<times> string) list" where
  "CLASS_LABELS = [(2, ''fly''), (3, ''Cockroach'')]"

definition REAL_WIDTHS_M :: "(string \<times> real) list" where
  "REAL_WIDTHS_M = [(''fly'', 0.08), (''Cockroach'', 0.08)]"

definition FOCAL_LENGTH_PIXELS :: real where
  "FOCAL_LENGTH_PIXELS = 1200"

text \<open>One box of a model's result, as lines 165 and 173--175 read it: the four corners
  after \<open>map(int, ...)\<close>, \<open>int(box.cls[0])\<close>, the confidence, and
  \<open>r.names.get(cls_id, f"Class {cls_id}")\<close>.\<close>

record raw_box =
  b_x1 :: int
  b_y1 :: int
  b_x2 :: int
  b_y2 :: int
  b_cls :: int
  b_conf :: real
  b_name :: string

text \<open>Lines 165--182 for one box: scaled to the frame, dropped when narrower or lower
  than \<open>MIN_BOX_SIZE\<close> or when its label is neither \<open>fly\<close> nor \<open>Cockroach\<close>, else a
  detection with its distance. \<open>get_distance_meters\<close> is over the reals; what line 180
  returns is a double, the quotient rounded (the product \<open>0.08 * 1200.0\<close> is the double 96
  itself, see \<open>distance_product_exact\<close>).\<close>

definition detect_box :: "nat \<Rightarrow> nat \<Rightarrow> raw_box \<Rightarrow> py_error + detection option" where
  "detect_box shape0 shape1 box =
     (let scale_x = fl (of_nat shape1 / of_nat INFER_RES);
          scale_y = fl (of_nat shape0 / of_nat INFER_RES);
          x1 = py_int (fl (of_int (b_x1 box) * scale_x));
          x2 = py_int (fl (of_int (b_x2 box) * scale_x));
          y1 = py_int (fl (of_int (b_y1 box) * scale_y));
          y2 = py_int (fl (of_int (b_y2 box) * scale_y));
          w = x2 - x1; h = y2 - y1
      in if w < MIN_BOX_SIZE \<or> h < MIN_BOX_SIZE then Inr None
         else
           (let lbl = (case map_of CLASS_LABELS (b_cls box) of
                         Some l \<Rightarrow> l | None \<Rightarrow> b_name box)
            in if lbl \<notin> set (map snd CLASS_LABELS) then Inr None
               else
                 (let real_w_m = (case map_of REAL_WIDTHS_M lbl of
                                    Some r \<Rightarrow> r | None \<Rightarrow> 0.01)
                  in case get_distance_meters (of_int w) real_w_m FOCAL_LENGTH_PIXELS of
                       Inl e \<Rightarrow> Inl e
                     | Inr distance_m \<Rightarrow>
                         Inr (Some (x1, y1, x2, y2, lbl, fl distance_m, b_conf box)))))"

text \<open>Lines 158--182: the boxes of both models, in order, into the list \<open>detections\<close>.\<close>

fun collect_detections :: "nat \<Rightarrow> nat \<Rightarrow> raw_box list \<Rightarrow> py_error + detection list" where
  "collect_detections shape0 shape1 [] = Inr []"
| "collect_detections shape0 shape1 (box # boxes) =
     (case detect_box shape0 shape1 box of
        Inl e \<Rightarrow> Inl e
      | Inr None \<Rightarrow> collect_detections shape0 shape1 boxes
      | Inr (Some d) \<Rightarrow>
          (case collect_detections shape0 shape1 boxes of
             Inl e \<Rightarrow> Inl e
           | Inr ds \<Rightarrow> Inr (d # ds)))"

text \<open>Line 269, in the OLED block of the same pass: \<open>min(detections, key=lambda d: d[5])\<close>,
  the first detection of the frame with the smallest distance.\<close>

fun nearest_track :: "detection list \<Rightarrow> detection option" where
  "nearest_track [] = None"
| "nearest_track (d # ds) =
     Some (fold (\<lambda>c best. if fst (snd (snd (snd (snd (snd c)))))
                                < fst (snd (snd (snd (snd (snd best))))) then c else best)
             ds d)"

text \<open>One value of \<open>species_summary\<close> (lines 209--215): the inner dictionary always has
  these five keys, so the defaults of \<open>info.get(key, 0)\<close> in line 141--145 are never used.\<close>

record summary =
  count :: int
  entry_angle_deg :: real
  exit_angle_deg :: real
  entry_distance_m :: real
  exit_distance_m :: real

text \<open>\<open>nearest_encounter\<close> (line 51).\<close>

record nearest =
  ne_distance_m :: pyfloat
  ne_frame :: "nat option"
  ne_label :: "string option"
  ne_angle_deg :: "real option"

record loop_state =
  prev_centers :: "(string \<times> (int \<times> int)) list"
  trajectories :: "(string \<times> (int \<times> int) deque) list"
  prev_time :: real
  speed_tracker :: "(string \<times> (int \<times> int \<times> real \<times> real)) list"
  species_summary :: "(string \<times> summary) list"
  nearest_encounter :: nearest
  json_data :: "(string \<times> json) list"
  frame_id :: nat

text \<open>Lines 46--51 and 64--75; \<open>json0\<close> is the dictionary loaded from an existing log
  file, or empty.\<close>

definition initial_nearest :: nearest where
  "initial_nearest =
     \<lparr>ne_distance_m = Infinity, ne_frame = None, ne_label = None, ne_angle_deg = None\<rparr>"

definition initial_state :: "(string \<times> json) list \<Rightarrow> loop_state" where
  "initial_state json0 =
     \<lparr>prev_centers = [], trajectories = [], prev_time = 0, speed_tracker = [],
      species_summary = [], nearest_encounter = initial_nearest, json_data = json0,
      frame_id = 0\<rparr>"

section \<open>insect.py: the bookkeeping of one detection\<close>

text \<open>Lines 195--204. \<open>cx\<close>, \<open>cy\<close> are Python ints, so the sum of squares is exact and
  \<open>np.sqrt\<close> is applied to it.\<close>

definition update_speed ::
  "(string \<times> (int \<times> int \<times> real \<times> real)) list \<Rightarrow> string \<Rightarrow> int \<Rightarrow> int \<Rightarrow> real
   \<Rightarrow> py_error + (string \<times> (int \<times> int \<times> real \<times> real)) list" where
  "update_speed tracker lbl cx cy now =
     (case map_of tracker lbl of
        Some (px, py, pt, prev_speed) \<Rightarrow>
          (let dt = now - pt in
           if 0 < dt then
             (let dist_px = sqrt (of_int ((cx - px)\<^sup>2 + (cy - py)\<^sup>2)) in
              case truediv (dist_px * 0.02) dt of
                Inl e \<Rightarrow> Inl e
              | Inr speed_mps \<Rightarrow> Inr (AList.update lbl (cx, cy, now, speed_mps) tracker))
           else Inr tracker)
      | None \<Rightarrow> Inr (AList.update lbl (cx, cy, now, 0) tracker))"

text \<open>Line 205: \<open>speed_tracker[label][3]\<close>.\<close>

definition recorded_speed ::
  "(string \<times> (int \<times> int \<times> real \<times> real)) list \<Rightarrow> string \<Rightarrow> real option" where
  "recorded_speed tracker lbl =
     (case map_of tracker lbl of None \<Rightarrow> None | Some (px, py, pt, speed) \<Rightarrow> Some speed)"

text \<open>Lines 208--218.\<close>

definition update_summary ::
  "(string \<times> summary) list \<Rightarrow> string \<Rightarrow> real \<Rightarrow> real \<Rightarrow> (string \<times> summary) list" where
  "update_summary summ lbl angle_deg distance_m =
     (let info =
        (case map_of summ lbl of
           Some i \<Rightarrow> i
         | None \<Rightarrow>
             \<lparr>count = 0,
              entry_angle_deg = py_round angle_deg 1,
              exit_angle_deg = py_round angle_deg 1,
              entry_distance_m = py_round distance_m 2,
              exit_distance_m = py_round distance_m 2\<rparr>)
      in AList.update lbl
           (info\<lparr>count := count info + 1,
                 exit_angle_deg := py_round angle_deg 1,
                 exit_distance_m := py_round distance_m 2\<rparr>) summ)"

text \<open>Lines 221--227.\<close>

definition update_nearest :: "nearest \<Rightarrow> nat \<Rightarrow> string \<Rightarrow> real \<Rightarrow> real \<Rightarrow> nearest" where
  "update_nearest ne fid lbl distance_m angle_deg =
     (if float_lt distance_m (ne_distance_m ne) then
        ne\<lparr>ne_distance_m := Finite (py_round distance_m 3),
           ne_frame := Some fid,
           ne_label := Some lbl,
           ne_angle_deg := Some (py_round angle_deg 1)\<rparr>
      else ne)"

text \<open>Lines 246--250: the radar point of a detection is appended to the trail of its label,
  a new \<open>deque(maxlen=MAX_TRAIL)\<close> when the label has none.\<close>

definition trail_point :: "real \<Rightarrow> real \<Rightarrow> int \<times> int" where
  "trail_point distance_m norm_x =
     (let r_px = py_int (min (fl (fl (distance_m / RADAR_RANGE_M)
                                   * of_int (RADAR_SIZE div 2 - 20)))
                             (of_int (RADAR_SIZE div 2 - 20)));
          x = py_int (fl (of_int (RADAR_SIZE div 2)
                          + fl (norm_x * of_int (RADAR_SIZE div 2 - 20))));
          y = RADAR_SIZE div 2 - r_px
      in (x, y))"

definition update_trajectories ::
  "(string \<times> (int \<times> int) deque) list \<Rightarrow> string \<Rightarrow> int \<times> int
   \<Rightarrow> (string \<times> (int \<times> int) deque) list" where
  "update_trajectories trajs lbl p =
     (let trajs1 = (case map_of trajs lbl of
                      None \<Rightarrow> AList.update lbl (Deque MAX_TRAIL []) trajs
                    | Some dq \<Rightarrow> trajs)
      in case map_of trajs1 lbl of
           None \<Rightarrow> trajs1
         | Some dq \<Rightarrow> AList.update lbl (deque_append dq p) trajs1)"

text \<open>Lines 188--250 for one detection. The drawing calls (lines 230--241) change no
  variable of the loop and are left out. An exception leaves the loop with the state as
  it stands: the only division by a variable before any update is the angle's.\<close>

definition process_detection ::
  "nat \<Rightarrow> real \<Rightarrow> loop_state \<Rightarrow> detection \<Rightarrow> (py_error \<times> loop_state) + loop_state" where
  "process_detection shape1 now st det =
     (case det of (x1, y1, x2, y2, lbl, distance_m, conf) \<Rightarrow>
        (let cx = (x1 + x2) div 2; cy = (y1 + y2) div 2 in
         case truediv (of_int cx) (of_nat shape1) of
           Inl e \<Rightarrow> Inl (e, st)
         | Inr ratio \<Rightarrow>
             (let q = fl ratio; angle_deg = fl (q * 180) in
              case update_speed (speed_tracker st) lbl cx cy now of
                Inl e \<Rightarrow> Inl (e, st)
              | Inr tracker \<Rightarrow>
                  Inr (st\<lparr>speed_tracker := tracker,
                          species_summary :=
                            update_summary (species_summary st) lbl angle_deg distance_m,
                          nearest_encounter :=
                            update_nearest (nearest_encounter st) (frame_id st) lbl
                              distance_m angle_deg,
                          prev_centers := AList.update lbl (cx, cy) (prev_centers st),
                          trajectories :=
                            update_trajectories (trajectories st) lbl
                              (trail_point distance_m (fl (q - 0.5)))\<rparr>))))"

fun process_detections ::
  "nat \<Rightarrow> real \<Rightarrow> loop_state \<Rightarrow> detection list \<Rightarrow> (py_error \<times> loop_state) + loop_state" where
  "process_detections shape1 now st [] = Inr st"
| "process_detections shape1 now st (d # ds) =
     (case process_detection shape1 now st d of
        Inl e \<Rightarrow> Inl e
      | Inr st' \<Rightarrow> process_detections shape1 now st' ds)"

text \<open>Lines 253--257: labels with a trail that the frame did not show are dropped from
  the three per-label dictionaries.\<close>

definition remove_missing :: "string list \<Rightarrow> loop_state \<Rightarrow> loop_state" where
  "remove_missing current_labels st =
     (let gone = filter (\<lambda>lbl. lbl \<notin> set current_labels) (map fst (trajectories st))
      in st\<lparr>trajectories := fold AList.delete gone (trajectories st),
            prev_centers := fold AList.delete gone (prev_centers st),
            speed_tracker := fold AList.delete gone (speed_tracker st)\<rparr>)"

section \<open>insect.py: snapshots and the loop\<close>

text \<open>Lines 140--146: the five fields of one label.\<close>

definition summary_row :: "summary \<Rightarrow> json" where
  "summary_row info =
     JObj [(''start_distance_m'', JFloat (py_round (entry_distance_m info) 2)),
           (''end_distance_m'', JFloat (py_round (exit_distance_m info) 2)),
           (''start_angle_deg'', JFloat (py_round (entry_angle_deg info) 1)),
           (''end_angle_deg'', JFloat (py_round (exit_angle_deg info) 1)),
           (''count'', JInt (count info))]"

text \<open>Lines 135--147; \<open>timestamp\<close> is what \<open>datetime.now().isoformat()\<close> returned.
  \<open>save_json\<close> dumps \<open>json_data\<close> as it stands and catches every exception of the write, so
  it changes no variable and cannot leave the caller.\<close>

definition save_species_summary_to_json :: "string \<Rightarrow> loop_state \<Rightarrow> loop_state" where
  "save_species_summary_to_json timestamp st =
     st\<lparr>json_data :=
          AList.update timestamp
            (JObj (map (\<lambda>(lbl, info). (lbl, summary_row info)) (species_summary st)))
            (json_data st)\<rparr>"

text \<open>What one pass of the \<open>while True\<close> body gets from outside: \<open>frame.shape[1]\<close>, the
  detections collected in lines 158--182, \<open>time.time()\<close> of line 186, the timestamp a
  snapshot would get, \<open>time.time()\<close> of line 300, and whether \<open>q\<close> was pressed.\<close>

record frame_in =
  f_shape1 :: nat
  f_detections :: "detection list"
  f_now :: real
  f_stamp :: string
  f_curr_time :: real
  f_key_q :: bool

text \<open>Lines 295--298: the frame counter, and a snapshot every 30 frames.\<close>

definition count_frame :: "string \<Rightarrow> loop_state \<Rightarrow> loop_state" where
  "count_frame timestamp st =
     (let st' = st\<lparr>frame_id := frame_id st + 1\<rparr>
      in if frame_id st' mod 30 = 0 then save_species_summary_to_json timestamp st' else st')"

text \<open>Lines 300--302: \<open>fps = 1/(curr_time-prev_time) if prev_time else 0\<close> divides
  whenever \<open>prev_time\<close> is not zero; \<open>fps\<close> is only printed.\<close>

definition update_fps :: "real \<Rightarrow> loop_state \<Rightarrow> (py_error \<times> loop_state) + loop_state" where
  "update_fps curr_time st =
     (if prev_time st \<noteq> 0 then
        (case truediv 1 (curr_time - prev_time st) of
           Inl e \<Rightarrow> Inl (e, st)
         | Inr fps \<Rightarrow> Inr (st\<lparr>prev_time := curr_time\<rparr>))
      else Inr (st\<lparr>prev_time := curr_time\<rparr>))"

text \<open>Lines 184--302 of one pass, after the detections are collected. The OLED and LED
  block (lines 260--282) and the drawing change no variable of the loop.\<close>

definition process_frame :: "loop_state \<Rightarrow> frame_in \<Rightarrow> (py_error \<times> loop_state) + loop_state" where
  "process_frame st f =
     (case process_detections (f_shape1 f) (f_now f) st (f_detections f) of
        Inl e \<Rightarrow> Inl e
      | Inr st1 \<Rightarrow>
          update_fps (f_curr_time f)
            (count_frame (f_stamp f)
               (remove_missing (map label_of (f_detections f)) st1)))"

text \<open>One pass of the loop sees no frame (line 156, \<open>continue\<close>), a frame, or an exception
  raised by the camera, a model or a drawing call before the bookkeeping starts. The
  loop is driven by the list of what happens; the result says whether the loop was left
  (by \<open>break\<close> or by an exception) and the state then.\<close>

datatype event = NoFrame | Frame frame_in | Raise

fun capture_loop :: "loop_state \<Rightarrow> event list \<Rightarrow> bool \<times> loop_state" where
  "capture_loop st [] = (False, st)"
| "capture_loop st (NoFrame # evs) = capture_loop st evs"
| "capture_loop st (Raise # evs) = (True, st)"
| "capture_loop st (Frame f # evs) =
     (case process_frame st f of
        Inl (e, st') \<Rightarrow> (True, st')
      | Inr st' \<Rightarrow> if f_key_q f then (True, st') else capture_loop st' evs)"

text \<open>Line 310 stores the \<open>nearest_encounter\<close> dictionary itself.\<close>

definition nearest_json :: "nearest \<Rightarrow> json" where
  "nearest_json ne =
     JObj [(''distance_m'', (case ne_distance_m ne of Infinity \<Rightarrow> JInfinity | Finite r \<Rightarrow> JFloat r)),
           (''frame'', (case ne_frame ne of None \<Rightarrow> JNull | Some n \<Rightarrow> JInt (int n))),
           (''label'', (case ne_label ne of None \<Rightarrow> JNull | Some l \<Rightarrow> JStr l)),
           (''angle_deg'', (case ne_angle_deg ne of None \<Rightarrow> JNull | Some a \<Rightarrow> JFloat a))]"

text \<open>Lines 307--311, the \<open>finally\<close> block.\<close>

definition finally_block :: "string \<Rightarrow> loop_state \<Rightarrow> loop_state" where
  "finally_block timestamp st =
     (let st1 = save_species_summary_to_json timestamp st
      in st1\<lparr>json_data :=
               AList.update ''nearest_encounter'' (nearest_json (nearest_encounter st1))
                 (json_data st1)\<rparr>)"

text \<open>The program: \<open>None\<close> while the loop is still running after the events given.\<close>

definition run :: "(string \<times> json) list \<Rightarrow> event list \<Rightarrow> string \<Rightarrow> loop_state option" where
  "run json0 evs final_stamp =
     (case capture_loop (initial_state json0) evs of
        (True, st) \<Rightarrow> Some (finally_block final_stamp st)
      | (False, st) \<Rightarrow> None)"

section \<open>oledandled.py\<close>

text \<open>The calls into \<open>lgpio\<close>, the SSD1306 driver and \<open>print\<close> are the effects of this
  module. A function returns the calls it made, in order, and the exception that ended
  it, if any. Whether the \<open>k\<close>-th hardware call of an invocation fails is given from
  outside (\<open>fails k\<close>); a call that fails is the last one made.\<close>

datatype hw_op =
    GpioOpen int
  | GpioClaimOutput int int
  | GpioWrite int int int
  | I2cOpen
  | OledInit int int
  | OledFill int
  | OledShow
  | OledImage int int "((int \<times> int) \<times> string) list"
  | Stdout "string list"

definition is_gpio_write :: "hw_op \<Rightarrow> bool" where
  "is_gpio_write op = (case op of GpioWrite h pin level \<Rightarrow> True | _ \<Rightarrow> False)"

definition is_i2c :: "hw_op \<Rightarrow> bool" where
  "is_i2c op =
     (case op of I2cOpen \<Rightarrow> True | OledInit w h \<Rightarrow> True | OledFill c \<Rightarrow> True
      | OledShow \<Rightarrow> True | OledImage w h img \<Rightarrow> True | _ \<Rightarrow> False)"

fun perform :: "(nat \<Rightarrow> bool) \<Rightarrow> nat \<Rightarrow> hw_op list \<Rightarrow> hw_op list \<times> py_error option" where
  "perform fails k [] = ([], None)"
| "perform fails k (op # ops) =
     (if fails k then ([op], Some ExternalError)
      else (case perform fails (Suc k) ops of (made, r) \<Rightarrow> (op # made, r)))"

definition RED_LED :: int where
  "RED_LED = 17"

definition YELLOW_LED :: int where
  "YELLOW_LED = 27"

definition GREEN_LED :: int where
  "GREEN_LED = 22"

text \<open>Lines 19--26: \<open>handle\<close> is what \<open>gpiochip_open\<close> returns when it succeeds; any
  \<open>lgpio.error\<close> of the four calls leaves \<open>chip = None\<close>.\<close>

definition gpio_setup :: "(nat \<Rightarrow> bool) \<Rightarrow> int \<Rightarrow> int option" where
  "gpio_setup fails handle =
     (case perform fails 0
             [GpioOpen 0, GpioClaimOutput handle RED_LED, GpioClaimOutput handle YELLOW_LED,
              GpioClaimOutput handle GREEN_LED] of
        (made, None) \<Rightarrow> Some handle
      | (made, Some e) \<Rightarrow> None)"

text \<open>Lines 28--32. \<open>if chip:\<close> is Python truth: \<open>None\<close> and the integer 0 are false.\<close>

definition reset_leds :: "int option \<Rightarrow> (nat \<Rightarrow> bool) \<Rightarrow> hw_op list \<times> py_error option" where
  "reset_leds chip fails =
     (case chip of
        None \<Rightarrow> ([], None)
      | Some h \<Rightarrow>
          if h \<noteq> 0 then
            perform fails 0 [GpioWrite h RED_LED 0, GpioWrite h YELLOW_LED 0, GpioWrite h GREEN_LED 0]
          else ([], None))"

text \<open>The display object, when there is one: its width and height.\<close>

record oled_dev =
  width :: int
  height :: int

text \<open>Lines 35--44: without the driver module, or on any exception of the setup,
  \<open>oled\<close> is \<open>None\<close>.\<close>

definition oled_setup :: "bool \<Rightarrow> (nat \<Rightarrow> bool) \<Rightarrow> oled_dev option" where
  "oled_setup OLED_AVAILABLE fails =
     (if OLED_AVAILABLE then
        (case perform fails 0 [I2cOpen, OledInit 128 64, OledFill 0, OledShow] of
           (made, None) \<Rightarrow> Some \<lparr>width = 128, height = 64\<rparr>
         | (made, Some e) \<Rightarrow> None)
      else None)"

text \<open>Lines 46--58. The image is built in memory from the first five lines, line \<open>i\<close> at
  height \<open>12 * i\<close>.\<close>

definition display_on_oled ::
  "oled_dev option \<Rightarrow> string list \<Rightarrow> (nat \<Rightarrow> bool) \<Rightarrow> hw_op list \<times> py_error option" where
  "display_on_oled oled lines fails =
     (case oled of
        Some dev \<Rightarrow>
          perform fails 0
            [OledFill 0, OledShow,
             OledImage (width dev) (height dev)
               (map (\<lambda>(i, line). ((0, int i * 12), line)) (enumerate 0 (take 5 lines))),
             OledShow]
      | None \<Rightarrow> ([Stdout lines], None))"

section \<open>Llm.py: loading the sessions\<close>

definition DEFAULT_VIDEO :: string where
  "DEFAULT_VIDEO = ''/home/aaswat/insects/insect_detection_output.avi''"

text \<open>What lines 38--42 find at \<open>LOG_PATH\<close>: no file, a file that \<open>open\<close> or \<open>json.load\<close>
  raises on, or a file that loads to a value.\<close>

datatype log_read = NoFile | LoadError | Loaded json

text \<open>Lines 46--48 for one item of \<open>raw.items()\<close>; \<open>None\<close> when the body raises
  (\<open>data.copy()\<close> exists for a dictionary and a list only, and a list takes no string
  key).\<close>

fun session_of :: "string \<times> json \<Rightarrow> json option" where
  "session_of (ts, JObj d) =
     Some (JObj (AList.update ''video_reference'' (JStr DEFAULT_VIDEO)
                  (AList.update ''session_info''
                     (JObj [(''session_id'', JStr ts), (''timestamp'', JStr ts)]) d)))"
| "session_of (ts, v) = None"

text \<open>Lines 44--50: the loop over the items, with the list built so far.\<close>

fun build_sessions :: "(string \<times> json) list \<Rightarrow> json list \<Rightarrow> json list option" where
  "build_sessions [] sessions = Some sessions"
| "build_sessions (item # rest) sessions =
     (case session_of item of
        None \<Rightarrow> None
      | Some sess \<Rightarrow> build_sessions rest (sessions @ [sess]))"

text \<open>Lines 37--53: every exception of the \<open>try\<close> block ends in \<open>return []\<close>;
  \<open>raw.items()\<close> raises when the file holds anything but an object.\<close>

definition load_sessions :: "log_read \<Rightarrow> json list" where
  "load_sessions f =
     (case f of
        NoFile \<Rightarrow> []
      | LoadError \<Rightarrow> []
      | Loaded raw \<Rightarrow>
          (case raw of
             JObj kvs \<Rightarrow> (case build_sessions kvs [] of None \<Rightarrow> [] | Some sessions \<Rightarrow> sessions)
           | _ \<Rightarrow> []))"

section \<open>Invariants and example inputs\<close>

text \<open>A property of the state a step ends in, whether the step returns or raises.\<close>

definition after :: "(loop_state \<Rightarrow> bool) \<Rightarrow> (py_error \<times> loop_state) + loop_state \<Rightarrow> bool" where
  "after P r = (case r of Inl (e, st) \<Rightarrow> P st | Inr st \<Rightarrow> P st)"

text \<open>Every trail is a \<open>deque(maxlen=MAX_TRAIL)\<close> holding at most \<open>MAX_TRAIL\<close> points.\<close>

definition trails_bounded :: "loop_state \<Rightarrow> bool" where
  "trails_bounded st =
     (\<forall>(lbl, dq) \<in> set (trajectories st).
        maxlen dq = MAX_TRAIL \<and> length (items dq) \<le> MAX_TRAIL)"

text \<open>A frame 2304 pixels wide with one fly 96 pixels wide at one metre, and \<open>q\<close> pressed.\<close>

definition example_frame :: frame_in where
  "example_frame =
     \<lparr>f_shape1 = 2304, f_detections = [(1100, 600, 1196, 700, ''fly'', 1, 0.9)],
      f_now = 10, f_stamp = ''2025-01-01T10:00:00.000000'', f_curr_time = 11,
      f_key_q = True\<rparr>"

text \<open>A state whose trail for \<open>fly\<close> is full, and the state after one more detection.\<close>

definition example_full_state :: loop_state where
  "example_full_state =
     (initial_state [])\<lparr>trajectories := [(''fly'', Deque 30 ((0, 0) # replicate 29 (149, 20)))]\<rparr>"

definition example_full_state_after :: loop_state where
  "example_full_state_after =
     \<lparr>prev_centers = [(''fly'', 1148, 650)],
      trajectories = [(''fly'', Deque 30 (replicate 29 (149, 20) @ [(149, 20)]))],
      prev_time = 0, speed_tracker = [(''fly'', 1148, 650, 10, 0)],
      species_summary =
        [(''fly'', \<lparr>count = 1, entry_angle_deg = 897 / 10, exit_angle_deg = 897 / 10,
                    entry_distance_m = 1, exit_distance_m = 1\<rparr>)],
      nearest_encounter =
        \<lparr>ne_distance_m = Finite 1, ne_frame = Some 0, ne_label = Some ''fly'',
         ne_angle_deg = Some (897 / 10)\<rparr>,
      json_data = [], frame_id = 0\<rparr>"

text \<open>The state the program ends in after \<open>example_frame\<close> alone.\<close>

definition example_final :: loop_state where
  "example_final =
     \<lparr>prev_centers = [(''fly'', 1148, 650)],
      trajectories = [(''fly'', Deque 30 [(149, 20)])], prev_time = 11,
      speed_tracker = [(''fly'', 1148, 650, 10, 0)],
      species_summary =
        [(''fly'', \<lparr>count = 1, entry_angle_deg = 897 / 10, exit_angle_deg = 897 / 10,
                    entry_distance_m = 1, exit_distance_m = 1\<rparr>)],
      nearest_encounter =
        \<lparr>ne_distance_m = Finite 1, ne_frame = Some 0, ne_label = Some ''fly'',
         ne_angle_deg = Some (897 / 10)\<rparr>,
      json_data =
        [(''2025-01-01T10:00:02.000000'',
          JObj [(''fly'',
                 JObj [(''start_distance_m'', JFloat 1), (''end_distance_m'', JFloat 1),
                       (''start_angle_deg'', JFloat (897 / 10)),
                       (''end_angle_deg'', JFloat (897 / 10)), (''count'', JInt 1)])]),
         (''nearest_encounter'',
          JObj [(''distance_m'', JFloat 1), (''frame'', JInt 0), (''label'', JStr ''fly''),
                (''angle_deg'', JFloat (897 / 10))])],
      frame_id = 1\<rparr>"

section \<open>What a run has detected\<close>

text \<open>One detection as the bookkeeping of lines 188--227 sees it: the value of \<open>frame_id\<close>
  during its pass, its label, its distance, and the angle of line 193.\<close>

record observation =
  o_frame :: nat
  o_label :: string
  o_distance_m :: real
  o_angle_deg :: real

definition observe :: "nat \<Rightarrow> nat \<Rightarrow> detection \<Rightarrow> observation" where
  "observe fid shape1 d =
     (case d of (x1, y1, x2, y2, lbl, distance_m, conf) \<Rightarrow>
        \<lparr>o_frame = fid, o_label = lbl, o_distance_m = distance_m,
         o_angle_deg = fl (fl (of_int ((x1 + x2) div 2) / of_nat shape1) * 180)\<rparr>)"

text \<open>The frames that go through the bookkeeping and are counted, read off the events
  alone, \<open>pt\<close> being \<open>prev_time\<close>: a pass without a frame is skipped; the loop stops at an
  exception from outside, at a frame with detections and width 0 (line 193 divides by
  it), after a frame taken at the time of the frame before (line 301 divides by the
  difference), and after a frame with \<open>q\<close> pressed.\<close>

fun counted :: "real \<Rightarrow> event list \<Rightarrow> frame_in list" where
  "counted pt [] = []"
| "counted pt (NoFrame # evs) = counted pt evs"
| "counted pt (Raise # evs) = []"
| "counted pt (Frame f # evs) =
     (if f_detections f \<noteq> [] \<and> f_shape1 f = 0 then []
      else f # (if (pt \<noteq> 0 \<and> f_curr_time f = pt) \<or> f_key_q f then []
                else counted (f_curr_time f) evs))"

text \<open>The detections of the counted frames, in order, the first frame being processed
  with \<open>frame_id = n\<close>; and those of a whole run.\<close>

definition observations :: "nat \<Rightarrow> frame_in list \<Rightarrow> observation list" where
  "observations n fs =
     concat (map (\<lambda>(i, f). map (observe i (f_shape1 f)) (f_detections f)) (enumerate n fs))"

definition history :: "event list \<Rightarrow> observation list" where
  "history evs = observations 0 (counted 0 evs)"

text \<open>The timestamps of the counted frames that bring the frame counter to a multiple of
  30, the counter being \<open>n\<close> before the first of them.\<close>

definition save_stamps :: "nat \<Rightarrow> frame_in list \<Rightarrow> string list" where
  "save_stamps n fs =
     map (\<lambda>(i, f). f_stamp f) (filter (\<lambda>(i, f). i mod 30 = 0) (enumerate (Suc n) fs))"

text \<open>The keys of a dictionary after \<open>d[k] = v\<close>.\<close>

definition add_key :: "'a \<Rightarrow> 'a list \<Rightarrow> 'a list" where
  "add_key k ks = (if k \<in> set ks then ks else ks @ [k])"

text \<open>The observations of one label, in the order they were made.\<close>

definition of_label :: "string \<Rightarrow> observation list \<Rightarrow> observation list" where
  "of_label l obs = filter (\<lambda>ob. o_label ob = l) obs"

text \<open>What \<open>species_summary\<close> holds for a label with the observations \<open>obs\<close>: nothing when
  there is none, else their number, the rounded angle and distance of the first and those
  of the last.\<close>

definition summary_of :: "observation list \<Rightarrow> summary option" where
  "summary_of obs =
     (if obs = [] then None
      else Some \<lparr>count = int (length obs),
                 entry_angle_deg = py_round (o_angle_deg (hd obs)) 1,
                 exit_angle_deg = py_round (o_angle_deg (last obs)) 1,
                 entry_distance_m = py_round (o_distance_m (hd obs)) 2,
                 exit_distance_m = py_round (o_distance_m (last obs)) 2\<rparr>)"

definition summary_matches :: "loop_state \<Rightarrow> observation list \<Rightarrow> bool" where
  "summary_matches st obs =
     (\<forall>l. map_of (species_summary st) l = summary_of (of_label l obs))"

text \<open>The value a snapshot holds for a label with the observations \<open>obs\<close>: exactly the
  five fields, in the order written.\<close>

definition expected_row :: "observation list \<Rightarrow> json option" where
  "expected_row obs =
     (if obs = [] then None
      else Some (JObj [(''start_distance_m'', JFloat (py_round (o_distance_m (hd obs)) 2)),
                       (''end_distance_m'', JFloat (py_round (o_distance_m (last obs)) 2)),
                       (''start_angle_deg'', JFloat (py_round (o_angle_deg (hd obs)) 1)),
                       (''end_angle_deg'', JFloat (py_round (o_angle_deg (last obs)) 1)),
                       (''count'', JInt (int (length obs)))]))"

text \<open>The snapshot that lines 138--146 build from \<open>species_summary\<close>.\<close>

definition snapshot_of :: "loop_state \<Rightarrow> json" where
  "snapshot_of st = JObj (map (\<lambda>(lbl, info). (lbl, summary_row info)) (species_summary st))"

text \<open>What a pass that counts its frame does, whether line 301 then raises or not.\<close>

definition counted_pass :: "loop_state \<Rightarrow> frame_in \<Rightarrow> loop_state \<Rightarrow> bool" where
  "counted_pass st f st2 =
     (frame_id st2 = Suc (frame_id st)
      \<and> prev_time st2 = prev_time st
      \<and> json_data st2 =
           (if Suc (frame_id st) mod 30 = 0
            then AList.update (f_stamp f) (snapshot_of st2) (json_data st)
            else json_data st)
      \<and> (\<forall>obs. summary_matches st obs
             \<longrightarrow> summary_matches st2
                   (obs @ map (observe (frame_id st) (f_shape1 f)) (f_detections f))))"

text \<open>The state in which the loop is left, or the state it has reached when the events
  run out.\<close>

definition loop_end :: "(string \<times> json) list \<Rightarrow> event list \<Rightarrow> loop_state" where
  "loop_end json0 evs = snd (capture_loop (initial_state json0) evs)"

section \<open>Example runs\<close>

text \<open>Two boxes of the 640 by 640 inference image, a fly and a cockroach, and the frame of
  2304 by 1296 pixels in which lines 165--182 turn them into detections 566 and 565 pixels
  wide.\<close>

definition two_boxes :: "raw_box list" where
  "two_boxes =
     [\<lparr>b_x1 = 3, b_y1 = 10, b_x2 = 160, b_y2 = 40, b_cls = 2, b_conf = 0.9, b_name = ''fly''\<rparr>,
      \<lparr>b_x1 = 100, b_y1 = 50, b_x2 = 257, b_y2 = 90, b_cls = 3, b_conf = 0.8,
        b_name = ''Cockroach''\<rparr>]"

definition two_insects_frame :: frame_in where
  "two_insects_frame =
     \<lparr>f_shape1 = 2304,
      f_detections = [(10, 20, 576, 81, ''fly'', fl (96 / 566), 0.9),
                      (360, 101, 925, 182, ''Cockroach'', fl (96 / 565), 0.8)],
      f_now = 10, f_stamp = ''2025-01-01T10:00:00.000000'', f_curr_time = 11,
      f_key_q = False\<rparr>"

text \<open>A later frame with the fly alone, 720 pixels wide, and its box.\<close>

definition fly_box :: "raw_box list" where
  "fly_box =
     [\<lparr>b_x1 = 6, b_y1 = 10, b_x2 = 206, b_y2 = 40, b_cls = 2, b_conf = 0.7, b_name = ''fly''\<rparr>]"

definition fly_again_frame :: frame_in where
  "fly_again_frame =
     \<lparr>f_shape1 = 2304, f_detections = [(21, 20, 741, 81, ''fly'', fl (96 / 720), 0.7)],
      f_now = 39, f_stamp = ''2025-01-01T10:00:30.000000'', f_curr_time = 40,
      f_key_q = False\<rparr>"

text \<open>Frames without a detection, one second apart.\<close>

definition quiet_frame :: frame_in where
  "quiet_frame =
     \<lparr>f_shape1 = 2304, f_detections = [], f_now = 10,
      f_stamp = ''2025-01-01T10:00:01.000000'', f_curr_time = 11, f_key_q = False\<rparr>"

definition quiet_at :: "nat \<Rightarrow> event" where
  "quiet_at i = Frame (quiet_frame\<lparr>f_now := 10 + real i, f_curr_time := 11 + real i\<rparr>)"

text \<open>A run of 31 frames: both insects in the first, nothing in the next 28, the fly
  again in the 30th, and \<open>q\<close> pressed in the 31st.\<close>

definition first_29 :: "event list" where
  "first_29 = Frame two_insects_frame # map quiet_at [1..<29]"

definition example_run :: "event list" where
  "example_run =
     first_29 @ [Frame fly_again_frame,
                 Frame (quiet_frame\<lparr>f_now := 41, f_curr_time := 42, f_key_q := True\<rparr>)]"

text \<open>The two snapshots of that run, and its last record of the nearest encounter.\<close>

definition example_snapshot :: json where
  "example_snapshot =
     JObj [(''fly'',
            JObj [(''start_distance_m'', JFloat (17 / 100)),
                  (''end_distance_m'', JFloat (13 / 100)),
                  (''start_angle_deg'', JFloat (229 / 10)),
                  (''end_angle_deg'', JFloat (149 / 5)), (''count'', JInt 2)]),
           (''Cockroach'',
            JObj [(''start_distance_m'', JFloat (17 / 100)),
                  (''end_distance_m'', JFloat (17 / 100)),
                  (''start_angle_deg'', JFloat (251 / 5)),
                  (''end_angle_deg'', JFloat (251 / 5)), (''count'', JInt 1)])]"

definition example_nearest :: json where
  "example_nearest =
     JObj [(''distance_m'', JFloat (133 / 1000)), (''frame'', JInt 29),
           (''label'', JStr ''fly''), (''angle_deg'', JFloat (149 / 5))]"

text \<open>The state after the 30th frame of that run, and the state in which its loop is
  left.\<close>

definition example_state_30 :: loop_state where
  "example_state_30 =
     \<lparr>prev_centers = [(''fly'', 381, 50)],
      trajectories = [(''fly'', Deque 30 [(106, 133)])], prev_time = 40,
      speed_tracker = [(''fly'', 381, 50, 39, 0)],
      species_summary =
        [(''fly'', \<lparr>count = 2, entry_angle_deg = 229 / 10, exit_angle_deg = 149 / 5,
                    entry_distance_m = 17 / 100, exit_distance_m = 13 / 100\<rparr>),
         (''Cockroach'', \<lparr>count = 1, entry_angle_deg = 251 / 5, exit_angle_deg = 251 / 5,
                          entry_distance_m = 17 / 100, exit_distance_m = 17 / 100\<rparr>)],
      nearest_encounter =
        \<lparr>ne_distance_m = Finite (133 / 1000), ne_frame = Some 29,
         ne_label = Some ''fly'', ne_angle_deg = Some (149 / 5)\<rparr>,
      json_data = [(''2025-01-01T10:00:30.000000'', example_snapshot)],
      frame_id = 30\<rparr>"

definition example_state_31 :: loop_state where
  "example_state_31 =
     example_state_30\<lparr>prev_centers := [], trajectories := [], prev_time := 42,
                       speed_tracker := [], frame_id := 31\<rparr>"

text \<open>The equations of \<open>fl\<close> at literal numbers only, for evaluating examples.\<close>

lemmas fl_literal =
  fl_def [of "numeral a / numeral b"] fl_def [of "numeral a"] fl_def [of 1]
  fl_def [of "1 / numeral b"] fl_def [of "- (numeral a / numeral b)"]
  fl_def [of "- numeral a"] fl_def [of "- 1"] fl_def [of "- (1 / numeral b)"] fl_def [of 0]
  ulp_def [of "numeral a / numeral b"] ulp_def [of "numeral a"] ulp_def [of 1]
  ulp_def [of "1 / numeral b"] ulp_def [of "- (numeral a / numeral b)"]
  ulp_def [of "- numeral a"] ulp_def [of "- 1"] ulp_def [of "- (1 / numeral b)"]
  float_exponent_def [of "numeral a / numeral b"] float_exponent_def [of "numeral a"]
  float_exponent_def [of 1] float_exponent_def [of "1 / numeral b"]
  float_exponent_def [of "- (numeral a / numeral b)"] float_exponent_def [of "- numeral a"]
  float_exponent_def [of "- 1"] float_exponent_def [of "- (1 / numeral b)"]
  exp_up.simps [of "numeral n" "numeral a / numeral b"] exp_up.simps [of "numeral n" "numeral a"]
  exp_up.simps [of "numeral n" 1]
  exp_down.simps [of "numeral n" "numeral a / numeral b"]
  exp_down.simps [of "numeral n" "1 / numeral b"]
  for a b n

lemmas eval_defs =
  process_frame_def process_detection_def initial_state_def truediv_def update_speed_def Let_def
  update_summary_def update_nearest_def initial_nearest_def float_lt_def update_trajectories_def
  trail_point_def py_int_def RADAR_SIZE_def RADAR_RANGE_M_def MAX_TRAIL_def deque_append_def
  py_round_def round_half_even_def remove_missing_def label_of_def finally_block_def
  save_species_summary_to_json_def summary_row_def nearest_json_def count_frame_def
  update_fps_def run_def fl_literal

lemmas example_defs = two_insects_frame_def fly_again_frame_def quiet_frame_def quiet_at_def
  first_29_def example_run_def two_boxes_def fly_box_def loop_end_def example_snapshot_def
  example_nearest_def example_state_30_def example_state_31_def

lemmas box_defs = detect_box_def INFER_RES_def MIN_BOX_SIZE_def CLASS_LABELS_def
  REAL_WIDTHS_M_def FOCAL_LENGTH_PIXELS_def get_distance_meters_def

section \<open>Properties of the distance and speed formulas\<close>

lemma truediv_nonzero: "b \<noteq> 0 \<Longrightarrow> truediv a b = Inr (a / b)"
  by (simp add: truediv_def)

text \<open>
  C3: for positive bounding-box width, real-world width and focal length,
  \<open>get_distance_meters\<close> returns the pinhole estimate
  \<open>(real_width_m * focal_px) / width_px\<close>.
\<close>

theorem get_distance_meters_pinhole:
  assumes "0 < width_px" and "0 < real_width_m" and "0 < focal_px"
  shows "get_distance_meters width_px real_width_m focal_px
           = Inr ((real_width_m * focal_px) / width_px)"
  using assms by (simp add: get_distance_meters_def truediv_def)

theorem get_distance_meters_pinhole_witness:
  "(0::real) < 48 \<and> (0::real) < 0.08 \<and> (0::real) < 1200
   \<and> get_distance_meters 48 0.08 1200 = Inr 2"
  using get_distance_meters_pinhole [of 48 "0.08" 1200] by simp

lemma update_speed_no_error: "update_speed tracker lbl cx cy now \<noteq> Inl e"
  by (auto simp: update_speed_def truediv_def Let_def split: option.splits prod.splits)

text \<open>
  C8: the distance and speed formulas never divide by zero. \<open>get_distance_meters\<close>
  returns 0.0 whenever one of its arguments is not positive and divides only otherwise,
  and the speed update divides by the elapsed time only when it is strictly positive:
  neither function can end in \<open>ZeroDivisionError\<close>.
\<close>

theorem division_guards:
  "get_distance_meters width_px real_width_m focal_px \<noteq> Inl e
   \<and> (width_px \<le> 0 \<or> real_width_m \<le> 0 \<or> focal_px \<le> 0
        \<longrightarrow> get_distance_meters width_px real_width_m focal_px = Inr 0)
   \<and> update_speed tracker lbl cx cy now \<noteq> Inl e"
  by (auto simp: get_distance_meters_def truediv_def update_speed_no_error)

theorem division_guards_witness:
  "get_distance_meters 0 0.08 1200 = Inr 0
   \<and> get_distance_meters 48 0.08 1200 \<noteq> Inl ZeroDivisionError
   \<and> update_speed [(''fly'', (0, 0, 5, 0))] ''fly'' 3 4 5 \<noteq> Inl ZeroDivisionError
   \<and> update_speed [(''fly'', (0, 0, 5, 0))] ''fly'' 3 4 5 = Inr [(''fly'', (0, 0, 5, 0))]"
  using division_guards [of 0 "0.08" 1200 ZeroDivisionError "[(''fly'', (0, 0, 5, 0))]" "''fly''" 3 4 5]
    division_guards [of 48 "0.08" 1200 ZeroDivisionError "[(''fly'', (0, 0, 5, 0))]" "''fly''" 3 4 5]
  by (simp add: update_speed_def)

text \<open>
  C4: for a label in the speed tracker with stored centroid \<open>(px, py)\<close> at time \<open>pt\<close>, a
  detection at time \<open>now\<close> with centroid \<open>(cx, cy)\<close> and \<open>dt = now - pt > 0\<close> records the
  speed \<open>sqrt((cx-px)^2 + (cy-py)^2) * 0.02 / dt\<close>; the first detection of a label
  records 0.0; and when \<open>dt\<close> is not positive the recorded speed is kept.
\<close>

theorem update_speed_recorded:
  "(map_of tracker lbl = Some (px, py, pt, prev_speed) \<and> 0 < now - pt \<longrightarrow>
      update_speed tracker lbl cx cy now
        = Inr (AList.update lbl
                 (cx, cy, now, sqrt (of_int ((cx - px)\<^sup>2 + (cy - py)\<^sup>2)) * 0.02 / (now - pt))
                 tracker)
      \<and> recorded_speed
            (AList.update lbl
               (cx, cy, now, sqrt (of_int ((cx - px)\<^sup>2 + (cy - py)\<^sup>2)) * 0.02 / (now - pt))
               tracker) lbl
          = Some (sqrt (of_int ((cx - px)\<^sup>2 + (cy - py)\<^sup>2)) * 0.02 / (now - pt)))
   \<and> (map_of tracker lbl = None \<longrightarrow>
        update_speed tracker lbl cx cy now = Inr (AList.update lbl (cx, cy, now, 0) tracker)
        \<and> recorded_speed (AList.update lbl (cx, cy, now, 0) tracker) lbl = Some 0)
   \<and> (map_of tracker lbl = Some (px, py, pt, prev_speed) \<and> \<not> 0 < now - pt \<longrightarrow>
        update_speed tracker lbl cx cy now = Inr tracker
        \<and> recorded_speed tracker lbl = Some prev_speed)"
  by (simp add: update_speed_def recorded_speed_def truediv_def Let_def update_conv)

theorem update_speed_recorded_witness:
  "update_speed [(''fly'', (0, 0, 1, 0))] ''fly'' 3 4 2 = Inr [(''fly'', (3, 4, 2, 0.1))]
   \<and> recorded_speed [(''fly'', (3, 4, 2, 0.1))] ''fly'' = Some 0.1
   \<and> update_speed [] ''fly'' 3 4 2 = Inr [(''fly'', (3, 4, 2, 0))]
   \<and> recorded_speed [(''fly'', (3, 4, 2, 0))] ''fly'' = Some 0
   \<and> update_speed [(''fly'', (0, 0, 2, 7))] ''fly'' 3 4 2 = Inr [(''fly'', (0, 0, 2, 7))]
   \<and> recorded_speed [(''fly'', (0, 0, 2, 7))] ''fly'' = Some 7"
  using update_speed_recorded [of "[(''fly'', (0, 0, 1, 0))]" "''fly''" 0 0 1 0 2 3 4]
    update_speed_recorded [of "[]" "''fly''" 0 0 1 0 2 3 4]
    update_speed_recorded [of "[(''fly'', (0, 0, 2, 7))]" "''fly''" 0 0 2 7 2 3 4]
  by simp

section \<open>The peripheral wrapper without hardware\<close>

text \<open>
  C9: when opening the GPIO chip failed (\<open>chip\<close> is \<open>None\<close>), \<open>reset_leds\<close> performs no
  GPIO write and raises nothing; when the OLED failed to initialise (\<open>oled\<close> is \<open>None\<close>),
  \<open>display_on_oled\<close> performs no I2C operation and raises nothing, for any list of lines.
\<close>

theorem peripherals_absent:
  "reset_leds None fails = ([], None)
   \<and> filter is_gpio_write (fst (reset_leds None fails)) = []
   \<and> display_on_oled None lines fails = ([Stdout lines], None)
   \<and> filter is_i2c (fst (display_on_oled None lines fails)) = []
   \<and> (fails 0 \<longrightarrow> gpio_setup fails handle = None)
   \<and> (\<not> available \<or> fails 0 \<longrightarrow> oled_setup available fails = None)"
  by (simp add: reset_leds_def display_on_oled_def is_i2c_def gpio_setup_def oled_setup_def)

theorem peripherals_absent_witness:
  "gpio_setup (\<lambda>k. True) 0 = None
   \<and> reset_leds (gpio_setup (\<lambda>k. True) 0) (\<lambda>k. True) = ([], None)
   \<and> oled_setup True (\<lambda>k. True) = None
   \<and> display_on_oled (oled_setup True (\<lambda>k. True)) [''Insects: 1''] (\<lambda>k. True)
        = ([Stdout [''Insects: 1'']], None)"
  using peripherals_absent [of "\<lambda>k. True" "[''Insects: 1'']" 0 True]
  by simp

section \<open>Loading the sessions\<close>

lemma build_sessions_length:
  "build_sessions kvs sessions = Some result \<Longrightarrow> length result = length sessions + length kvs"
proof (induction kvs arbitrary: sessions)
  case Nil
  then show ?case by simp
next
  case (Cons item rest)
  then show ?case
    by (cases "session_of item") (auto dest: Cons.IH)
qed

text \<open>
  C10: \<open>load_sessions\<close> returns the empty list, without raising, when the log file does
  not exist and when its contents fail to load as JSON; no partly built list is returned:
  whatever is at the log path, the result is empty or has one session for every key of
  the loaded object.
\<close>

theorem load_sessions_no_log:
  "load_sessions NoFile = []
   \<and> load_sessions LoadError = []
   \<and> (load_sessions f = []
        \<or> (\<exists>kvs. f = Loaded (JObj kvs) \<and> length (load_sessions f) = length kvs))"
proof -
  have "load_sessions f = []
        \<or> (\<exists>kvs. f = Loaded (JObj kvs) \<and> length (load_sessions f) = length kvs)"
  proof (cases f)
    case (Loaded raw)
    show ?thesis
    proof (cases raw)
      case (JObj kvs)
      show ?thesis
      proof (cases "build_sessions kvs []")
        case None
        with Loaded JObj show ?thesis by (simp add: load_sessions_def)
      next
        case (Some result)
        with Loaded JObj build_sessions_length [OF Some] show ?thesis
          by (simp add: load_sessions_def)
      qed
    qed (simp_all add: Loaded load_sessions_def)
  qed (simp_all add: load_sessions_def)
  then show ?thesis
    by (simp add: load_sessions_def)
qed

section \<open>Rounding\<close>

lemma round_half_even_of_int: "round_half_even (of_int n) = n"
  by (simp add: round_half_even_def Let_def)

lemma py_round_idem: "py_round (py_round x n) n = py_round x n"
  by (simp add: py_round_def round_half_even_of_int)

section \<open>Invariants of the capture loop\<close>

lemma after_simps [simp]: "after P (Inr st) = P st" "after P (Inl (e, st)) = P st"
  by (simp_all add: after_def)

lemma process_detection_Inl:
  "process_detection shape1 now st d = Inl (e, st') \<Longrightarrow> st' = st"
  by (auto simp: process_detection_def Let_def split: prod.splits sum.splits)

lemma process_detection_after:
  assumes det: "\<And>s n st d st'. P st \<Longrightarrow> process_detection s n st d = Inr st' \<Longrightarrow> P st'"
    and "P st"
  shows "after P (process_detection shape1 now st d)"
proof (cases "process_detection shape1 now st d")
  case (Inl a)
  obtain e s0 where a: "a = (e, s0)" by (cases a)
  with Inl have "s0 = st" by (auto dest: process_detection_Inl)
  with Inl a assms(2) show ?thesis by simp
next
  case (Inr b)
  then show ?thesis using det [OF assms(2) Inr] by simp
qed

lemma process_detections_after:
  assumes det: "\<And>s n st d st'. P st \<Longrightarrow> process_detection s n st d = Inr st' \<Longrightarrow> P st'"
  shows "P st \<Longrightarrow> after P (process_detections shape1 now st ds)"
proof (induction ds arbitrary: st)
  case Nil
  then show ?case by simp
next
  case (Cons d ds)
  show ?case
  proof (cases "process_detection shape1 now st d")
    case (Inl a)
    have "after P (process_detection shape1 now st d)"
      by (rule process_detection_after [where P = P, OF det Cons.prems])
    with Inl show ?thesis by simp
  next
    case (Inr st1)
    have "P st1" using det [OF Cons.prems Inr] .
    from Cons.IH [OF this] Inr show ?thesis by simp
  qed
qed

lemma update_fps_after:
  assumes pt: "\<And>t st. P st \<Longrightarrow> P (st\<lparr>prev_time := t\<rparr>)" and "P st"
  shows "after P (update_fps t st)"
  using assms by (simp add: update_fps_def truediv_def)

lemma process_frame_after:
  assumes det: "\<And>s n st d st'. P st \<Longrightarrow> process_detection s n st d = Inr st' \<Longrightarrow> P st'"
      and rm: "\<And>ls st. P st \<Longrightarrow> P (remove_missing ls st)"
      and cf: "\<And>ts st. P st \<Longrightarrow> P (count_frame ts st)"
      and pt: "\<And>t st. P st \<Longrightarrow> P (st\<lparr>prev_time := t\<rparr>)"
      and P: "P st"
  shows "after P (process_frame st f)"
proof -
  have D: "after P (process_detections (f_shape1 f) (f_now f) st (f_detections f))"
    by (rule process_detections_after [where P = P, OF det P])
  show ?thesis
  proof (cases "process_detections (f_shape1 f) (f_now f) st (f_detections f)")
  case (Inl a)
  with D show ?thesis by (simp add: process_frame_def)
next
  case (Inr st1)
  with D have "P st1" by simp
  then have "P (count_frame (f_stamp f) (remove_missing (map label_of (f_detections f)) st1))"
    by (intro cf rm)
  then have "after P (update_fps (f_curr_time f)
      (count_frame (f_stamp f) (remove_missing (map label_of (f_detections f)) st1)))"
    using update_fps_after [where P = P] pt by blast
  then show ?thesis
    using Inr by (simp add: process_frame_def)
  qed
qed

lemma capture_loop_invariant:
  assumes det: "\<And>s n st d st'. P st \<Longrightarrow> process_detection s n st d = Inr st' \<Longrightarrow> P st'"
      and rm: "\<And>ls st. P st \<Longrightarrow> P (remove_missing ls st)"
      and cf: "\<And>ts st. P st \<Longrightarrow> P (count_frame ts st)"
      and pt: "\<And>t st. P st \<Longrightarrow> P (st\<lparr>prev_time := t\<rparr>)"
  shows "P st \<Longrightarrow> P (snd (capture_loop st evs))"
proof (induction st evs rule: capture_loop.induct)
  case (1 st)
  then show ?case by simp
next
  case (2 st evs)
  then show ?case by simp
next
  case (3 st evs)
  then show ?case by simp
next
  case (4 st f evs)
  have A: "after P (process_frame st f)"
    by (rule process_frame_after [where P = P, OF det rm cf pt "4.prems"])
  show ?case
  proof (cases "process_frame st f")
    case (Inl a)
    with A show ?thesis by (cases a) simp
  next
    case (Inr st1)
    with A have P1: "P st1" by simp
    show ?thesis
    proof (cases "f_key_q f")
      case True
      with Inr P1 show ?thesis by simp
    next
      case False
      with "4.IH" [OF Inr False P1] Inr show ?thesis by simp
    qed
  qed
qed

text \<open>What each step does to the fields the invariants speak of.\<close>

lemma process_detection_fields:
  assumes "process_detection shape1 now st (x1, y1, x2, y2, lbl, distance_m, conf) = Inr st'"
  shows "trajectories st' =
           update_trajectories (trajectories st) lbl
             (trail_point distance_m
                (fl (fl (of_int ((x1 + x2) div 2) / of_nat shape1) - 0.5)))"
    and "species_summary st' =
           update_summary (species_summary st) lbl
             (fl (fl (of_int ((x1 + x2) div 2) / of_nat shape1) * 180)) distance_m"
    and "nearest_encounter st' =
           update_nearest (nearest_encounter st) (frame_id st) lbl distance_m
             (fl (fl (of_int ((x1 + x2) div 2) / of_nat shape1) * 180))"
    and "frame_id st' = frame_id st"
    and "json_data st' = json_data st"
    and "prev_time st' = prev_time st"
    and "shape1 \<noteq> 0"
  using assms
  by (auto simp: process_detection_def truediv_def Let_def split: if_splits sum.splits)

lemma run_SomeD:
  "run json0 evs ts = Some st \<Longrightarrow>
     capture_loop (initial_state json0) evs = (True, snd (capture_loop (initial_state json0) evs))
     \<and> st = finally_block ts (snd (capture_loop (initial_state json0) evs))"
  by (auto simp: run_def split: prod.splits bool.splits)

section \<open>The trail buffers\<close>

lemma set_update_subset: "set (AList.update k v al) \<subseteq> insert (k, v) (set al)"
  by (induction al) auto

lemma set_fold_delete_subset: "set (fold AList.delete ks al) \<subseteq> set al"
proof (induction ks arbitrary: al)
  case Nil
  then show ?case by simp
next
  case (Cons k ks)
  have "set (fold AList.delete ks (AList.delete k al)) \<subseteq> set (AList.delete k al)"
    by (rule Cons.IH)
  also have "\<dots> \<subseteq> set al"
    by (auto simp: AList.delete_eq)
  finally show ?case by simp
qed

lemma deque_append_full:
  "length (items dq) = maxlen dq \<Longrightarrow> items (deque_append dq p) = tl (items dq @ [p])"
  by (simp add: deque_append_def Let_def)

lemma deque_append_length:
  "length (items dq) \<le> maxlen dq \<Longrightarrow> length (items (deque_append dq p)) \<le> maxlen dq"
  by (simp add: deque_append_def Let_def)

lemma deque_append_maxlen: "maxlen (deque_append dq p) = maxlen dq"
  by (simp add: deque_append_def Let_def)

lemma update_trajectories_bounded:
  assumes "\<forall>(lbl, dq) \<in> set trajs. maxlen dq = MAX_TRAIL \<and> length (items dq) \<le> MAX_TRAIL"
  shows "\<forall>(lbl, dq) \<in> set (update_trajectories trajs l p).
           maxlen dq = MAX_TRAIL \<and> length (items dq) \<le> MAX_TRAIL"
proof (cases "map_of trajs l")
  case None
  have "update_trajectories trajs l p
          = AList.update l (deque_append (Deque MAX_TRAIL []) p) (AList.update l (Deque MAX_TRAIL []) trajs)"
    using None by (simp add: update_trajectories_def update_conv')
  also have "\<dots> = AList.update l (deque_append (Deque MAX_TRAIL []) p) trajs"
    by simp
  finally have "set (update_trajectories trajs l p)
                  \<subseteq> insert (l, deque_append (Deque MAX_TRAIL []) p) (set trajs)"
    by (simp add: set_update_subset)
  moreover have "maxlen (deque_append (Deque MAX_TRAIL []) p) = MAX_TRAIL"
    "length (items (deque_append (Deque MAX_TRAIL []) p)) \<le> MAX_TRAIL"
    by (simp_all add: deque_append_def MAX_TRAIL_def)
  ultimately show ?thesis using assms by auto
next
  case (Some dq)
  then have mem: "(l, dq) \<in> set trajs" by (rule map_of_SomeD)
  with assms have dq: "maxlen dq = MAX_TRAIL" "length (items dq) \<le> MAX_TRAIL" by auto
  have "update_trajectories trajs l p = AList.update l (deque_append dq p) trajs"
    using Some by (simp add: update_trajectories_def)
  then have "set (update_trajectories trajs l p) \<subseteq> insert (l, deque_append dq p) (set trajs)"
    by (simp add: set_update_subset)
  moreover have "maxlen (deque_append dq p) = MAX_TRAIL"
    "length (items (deque_append dq p)) \<le> MAX_TRAIL"
    using dq deque_append_length [of dq p] by (simp_all add: deque_append_maxlen)
  ultimately show ?thesis using assms by auto
qed

lemma trails_bounded_detection:
  assumes "trails_bounded st" and "process_detection shape1 now st d = Inr st'"
  shows "trails_bounded st'"
proof -
  obtain x1 y1 x2 y2 lbl distance_m conf where d: "d = (x1, y1, x2, y2, lbl, distance_m, conf)"
    by (cases d)
  show ?thesis
    using update_trajectories_bounded [of "trajectories st"] assms(1)
      process_detection_fields(1) [OF assms(2) [unfolded d]]
    by (simp add: trails_bounded_def)
qed

lemma trails_bounded_remove:
  assumes "trails_bounded st"
  shows "trails_bounded (remove_missing ls st)"
proof -
  obtain gone where "trajectories (remove_missing ls st) = fold AList.delete gone (trajectories st)"
    by (simp add: remove_missing_def Let_def)
  then have "set (trajectories (remove_missing ls st)) \<subseteq> set (trajectories st)"
    by (simp add: set_fold_delete_subset)
  with assms show ?thesis
    unfolding trails_bounded_def by blast
qed

lemma trails_bounded_count: "trails_bounded st \<Longrightarrow> trails_bounded (count_frame ts st)"
  by (simp add: trails_bounded_def count_frame_def save_species_summary_to_json_def Let_def)

lemma trails_bounded_loop: "trails_bounded (snd (capture_loop (initial_state json0) evs))"
proof (rule capture_loop_invariant [where P = trails_bounded])
  show "trails_bounded (initial_state json0)"
    by (simp add: trails_bounded_def initial_state_def)
next
  show "\<And>s n st d st'. trails_bounded st \<Longrightarrow> process_detection s n st d = Inr st'
          \<Longrightarrow> trails_bounded st'"
    by (rule trails_bounded_detection)
next
  show "\<And>ls st. trails_bounded st \<Longrightarrow> trails_bounded (remove_missing ls st)"
    by (rule trails_bounded_remove)
next
  show "\<And>ts st. trails_bounded st \<Longrightarrow> trails_bounded (count_frame ts st)"
    by (rule trails_bounded_count)
next
  show "\<And>t st. trails_bounded st \<Longrightarrow> trails_bounded (st\<lparr>prev_time := t\<rparr>)"
    by (simp add: trails_bounded_def)
qed

text \<open>
  C5: every trail buffer holds at most \<open>MAX_TRAIL = 30\<close> points at all times: appending
  to a full buffer discards the oldest point, and every append of the main loop preserves
  \<open>len(trajectories[label]) <= 30\<close>.
\<close>

theorem trail_buffers_bounded:
  "(length (items dq) = maxlen dq \<and> 0 < maxlen dq
      \<longrightarrow> items (deque_append dq p) = tl (items dq) @ [p])
   \<and> (trails_bounded st \<and> process_detection shape1 now st d = Inr st' \<longrightarrow> trails_bounded st')
   \<and> trails_bounded (snd (capture_loop (initial_state json0) evs))
   \<and> (\<forall>(lbl, dq) \<in> set (trajectories (snd (capture_loop (initial_state json0) evs))).
         length (items dq) \<le> 30)"
proof (intro conjI impI)
  assume "length (items dq) = maxlen dq \<and> 0 < maxlen dq"
  then show "items (deque_append dq p) = tl (items dq) @ [p]"
    by (cases "items dq") (auto simp: deque_append_def Let_def)
next
  assume "trails_bounded st \<and> process_detection shape1 now st d = Inr st'"
  then show "trails_bounded st'"
    using trails_bounded_detection by blast
next
  show "trails_bounded (snd (capture_loop (initial_state json0) evs))"
    by (rule trails_bounded_loop)
next
  show "\<forall>(lbl, dq) \<in> set (trajectories (snd (capture_loop (initial_state json0) evs))).
         length (items dq) \<le> 30"
    using trails_bounded_loop [of json0 evs] by (auto simp: trails_bounded_def MAX_TRAIL_def)
qed

theorem trail_buffers_bounded_witness:
  "items (deque_append (Deque 30 ((0, 0) # replicate 29 (149, 20))) (7 :: int, 7 :: int))
     = replicate 29 (149 :: int, 20 :: int) @ [(7, 7)]
   \<and> trails_bounded example_full_state
   \<and> process_detection 2304 10 example_full_state (1100, 600, 1196, 700, ''fly'', 1, 0.9)
       = Inr example_full_state_after
   \<and> trails_bounded example_full_state_after
   \<and> trajectories (snd (capture_loop (initial_state []) [Frame example_frame]))
       = [(''fly'', Deque 30 [(149, 20)])]"
proof -
  have a: "trails_bounded example_full_state"
    by (simp add: trails_bounded_def example_full_state_def MAX_TRAIL_def)
  have b: "process_detection 2304 10 example_full_state (1100, 600, 1196, 700, ''fly'', 1, 0.9)
             = Inr example_full_state_after"
    by (simp add: example_full_state_def example_full_state_after_def eval_defs)
  have c: "trajectories (snd (capture_loop (initial_state []) [Frame example_frame]))
             = [(''fly'', Deque 30 [(149, 20)])]"
    by (simp add: example_frame_def eval_defs)
  show ?thesis
    using a b c
      trail_buffers_bounded [of "Deque 30 ((0 :: int, 0 :: int) # replicate 29 (149, 20))" "(7, 7)"
        example_full_state 2304 10 "(1100, 600, 1196, 700, ''fly'', 1, 0.9)"
        example_full_state_after "[]" "[Frame example_frame]"]
    by simp
qed

section \<open>Sessions from the log\<close>

lemma build_sessions_objects:
  "build_sessions (map (\<lambda>(ts, d). (ts, JObj d)) entries) sessions =
     Some (sessions @
       map (\<lambda>(ts, d).
              JObj (AList.update ''video_reference'' (JStr DEFAULT_VIDEO)
                     (AList.update ''session_info''
                        (JObj [(''session_id'', JStr ts), (''timestamp'', JStr ts)]) d)))
           entries)"
  by (induction entries arbitrary: sessions) (auto split: prod.splits)

text \<open>
  What \<open>load_sessions\<close> does with a log whose values are all objects: one session per
  top-level key, in the order of the keys, the reserved key \<open>nearest_encounter\<close>
  included. Each session is the value with \<open>session_info\<close> and \<open>video_reference\<close> set.
\<close>

theorem load_sessions_one_per_key:
  "load_sessions (Loaded (JObj (map (\<lambda>(ts, d). (ts, JObj d)) entries))) =
     map (\<lambda>(ts, d).
            JObj (AList.update ''video_reference'' (JStr DEFAULT_VIDEO)
                   (AList.update ''session_info''
                      (JObj [(''session_id'', JStr ts), (''timestamp'', JStr ts)]) d)))
         entries"
  by (simp add: load_sessions_def build_sessions_objects)

text \<open>
  C7 says that \<open>load_sessions\<close> returns exactly one session per timestamped snapshot of
  the log. On the log that \<open>insect.py\<close> leaves after \<open>example_frame\<close>, which holds one
  snapshot and the \<open>nearest_encounter\<close> record, it returns two sessions: the second is
  built from the \<open>nearest_encounter\<close> record, with \<open>nearest_encounter\<close> as its session id.
\<close>

theorem load_sessions_nearest_encounter:
  "load_sessions (Loaded (JObj (json_data example_final))) =
     [JObj [(''fly'',
             JObj [(''start_distance_m'', JFloat 1), (''end_distance_m'', JFloat 1),
                   (''start_angle_deg'', JFloat (897 / 10)),
                   (''end_angle_deg'', JFloat (897 / 10)), (''count'', JInt 1)]),
            (''session_info'',
             JObj [(''session_id'', JStr ''2025-01-01T10:00:02.000000''),
                   (''timestamp'', JStr ''2025-01-01T10:00:02.000000'')]),
            (''video_reference'', JStr DEFAULT_VIDEO)],
      JObj [(''distance_m'', JFloat 1), (''frame'', JInt 0), (''label'', JStr ''fly''),
            (''angle_deg'', JFloat (897 / 10)),
            (''session_info'',
             JObj [(''session_id'', JStr ''nearest_encounter''),
                   (''timestamp'', JStr ''nearest_encounter'')]),
            (''video_reference'', JStr DEFAULT_VIDEO)]]
   \<and> length (load_sessions (Loaded (JObj (json_data example_final)))) = 2
   \<and> length (filter (\<lambda>(k, v). k \<noteq> ''nearest_encounter'') (json_data example_final)) = 1"
  by (simp add: load_sessions_def example_final_def)

section \<open>The summary and the detections of the counted frames\<close>

lemma summary_of_first:
  "summary_of [] = None"
  "summary_of [ob] =
     Some \<lparr>count = 1,
           entry_angle_deg = py_round (o_angle_deg ob) 1,
           exit_angle_deg = py_round (o_angle_deg ob) 1,
           entry_distance_m = py_round (o_distance_m ob) 2,
           exit_distance_m = py_round (o_distance_m ob) 2\<rparr>"
  by (simp_all add: summary_of_def)

lemma summary_of_next:
  assumes "summary_of obs = Some i"
  shows "summary_of (obs @ [ob]) =
           Some (i\<lparr>count := count i + 1,
                    exit_angle_deg := py_round (o_angle_deg ob) 1,
                    exit_distance_m := py_round (o_distance_m ob) 2\<rparr>)"
proof -
  have "obs \<noteq> []"
    using assms by (auto simp: summary_of_def)
  then show ?thesis
    using assms by (auto simp: summary_of_def)
qed

lemma summary_of_None: "summary_of obs = None \<longleftrightarrow> obs = []"
  by (simp add: summary_of_def)

lemma update_summary_lookup:
  assumes "\<forall>l. map_of summ l = summary_of (of_label l obs)"
  shows "map_of (update_summary summ lbl a d) l =
         summary_of (of_label l (obs @ [\<lparr>o_frame = fid, o_label = lbl, o_distance_m = d,
                                          o_angle_deg = a\<rparr>]))"
proof (cases "l = lbl")
  case True
  define ob where "ob = \<lparr>o_frame = fid, o_label = lbl, o_distance_m = d, o_angle_deg = a\<rparr>"
  have ob: "o_angle_deg ob = a" "o_distance_m ob = d"
    by (simp_all add: ob_def)
  have split: "of_label lbl (obs @ [ob]) = of_label lbl obs @ [ob]"
    by (simp add: of_label_def ob_def)
  have old: "map_of summ lbl = summary_of (of_label lbl obs)"
    using assms by blast
  show ?thesis
  proof (cases "summary_of (of_label lbl obs)")
    case None
    then have "of_label lbl obs = []"
      by (simp add: summary_of_None)
    then have "summary_of (of_label lbl (obs @ [ob])) =
        Some \<lparr>count = 1, entry_angle_deg = py_round a 1, exit_angle_deg = py_round a 1,
              entry_distance_m = py_round d 2, exit_distance_m = py_round d 2\<rparr>"
      using split by (simp add: summary_of_first ob)
    moreover have "map_of (update_summary summ lbl a d) lbl =
        Some \<lparr>count = 1, entry_angle_deg = py_round a 1, exit_angle_deg = py_round a 1,
              entry_distance_m = py_round d 2, exit_distance_m = py_round d 2\<rparr>"
      using old None by (simp add: update_summary_def Let_def update_conv')
    ultimately show ?thesis
      using True by (simp add: ob_def)
  next
    case (Some i)
    then have "summary_of (of_label lbl (obs @ [ob])) =
        Some (i\<lparr>count := count i + 1, exit_angle_deg := py_round a 1,
                 exit_distance_m := py_round d 2\<rparr>)"
      using split summary_of_next [of "of_label lbl obs" i ob] by (simp add: ob)
    moreover have "map_of (update_summary summ lbl a d) lbl =
        Some (i\<lparr>count := count i + 1, exit_angle_deg := py_round a 1,
                 exit_distance_m := py_round d 2\<rparr>)"
      using old Some by (simp add: update_summary_def Let_def update_conv')
    ultimately show ?thesis
      using True by (simp add: ob_def)
  qed
next
  case False
  then show ?thesis
    using assms [rule_format, of l]
    by (simp add: update_summary_def Let_def update_conv' of_label_def)
qed

lemma expected_row_summary:
  "map_option summary_row (summary_of obs) = expected_row obs"
  by (simp add: summary_of_def expected_row_def summary_row_def py_round_idem)

lemma summary_matches_detection:
  assumes "summary_matches st obs"
    and "process_detection shape1 now st d = Inr st'"
  shows "summary_matches st' (obs @ [observe (frame_id st) shape1 d])"
proof -
  obtain x1 y1 x2 y2 lbl distance_m conf where d: "d = (x1, y1, x2, y2, lbl, distance_m, conf)"
    by (cases d)
  note f = process_detection_fields [OF assms(2) [unfolded d]]
  show ?thesis
    unfolding summary_matches_def f(2) d observe_def
    using update_summary_lookup [OF assms(1) [unfolded summary_matches_def]] by simp
qed

lemma process_detection_total:
  assumes "shape1 \<noteq> 0"
  shows "\<exists>st'. process_detection shape1 now st d = Inr st'"
proof -
  obtain x1 y1 x2 y2 lbl distance_m conf where d: "d = (x1, y1, x2, y2, lbl, distance_m, conf)"
    by (cases d)
  obtain tracker where
    "update_speed (speed_tracker st) lbl ((x1 + x2) div 2) ((y1 + y2) div 2) now = Inr tracker"
    using update_speed_no_error
    by (cases "update_speed (speed_tracker st) lbl ((x1 + x2) div 2) ((y1 + y2) div 2) now") auto
  then show ?thesis
    using assms by (simp add: process_detection_def d truediv_def Let_def)
qed

lemma process_detections_total:
  assumes "shape1 \<noteq> 0"
  shows "\<exists>st'. process_detections shape1 now st ds = Inr st'
           \<and> frame_id st' = frame_id st \<and> json_data st' = json_data st
           \<and> prev_time st' = prev_time st
           \<and> (summary_matches st obs
                \<longrightarrow> summary_matches st' (obs @ map (observe (frame_id st) shape1) ds))"
proof (induction ds arbitrary: st obs)
  case Nil
  then show ?case by simp
next
  case (Cons d ds)
  obtain st1 where 1: "process_detection shape1 now st d = Inr st1"
    using process_detection_total [OF assms] by blast
  obtain x1 y1 x2 y2 lbl distance_m conf where d: "d = (x1, y1, x2, y2, lbl, distance_m, conf)"
    by (cases d)
  note f = process_detection_fields [OF 1 [unfolded d]]
  obtain st' where 2: "process_detections shape1 now st1 ds = Inr st'"
    "frame_id st' = frame_id st1" "json_data st' = json_data st1" "prev_time st' = prev_time st1"
    "summary_matches st1 (obs @ [observe (frame_id st) shape1 d])
       \<longrightarrow> summary_matches st' ((obs @ [observe (frame_id st) shape1 d])
                                    @ map (observe (frame_id st1) shape1) ds)"
    using Cons.IH [of st1 "obs @ [observe (frame_id st) shape1 d]"] by blast
  show ?case
    using 1 2 f(4,5,6) summary_matches_detection [OF _ 1, of obs]
    by (intro exI [of _ st']) simp
qed

lemma process_detections_zero:
  "process_detections 0 now st (d # ds) = Inl (ZeroDivisionError, st)"
  by (cases d) (simp add: process_detection_def truediv_def)

lemma summary_matches_cong:
  "species_summary st' = species_summary st \<Longrightarrow> summary_matches st' obs = summary_matches st obs"
  by (simp only: summary_matches_def)

lemma count_frame_facts:
  "frame_id (count_frame ts st) = Suc (frame_id st)"
  "prev_time (count_frame ts st) = prev_time st"
  "species_summary (count_frame ts st) = species_summary st"
  "json_data (count_frame ts st) =
     (if Suc (frame_id st) mod 30 = 0
      then AList.update ts (snapshot_of (count_frame ts st)) (json_data st)
      else json_data st)"
  by (simp_all add: count_frame_def save_species_summary_to_json_def Let_def snapshot_of_def)

lemma remove_missing_facts:
  "frame_id (remove_missing ls st) = frame_id st"
  "prev_time (remove_missing ls st) = prev_time st"
  "species_summary (remove_missing ls st) = species_summary st"
  "json_data (remove_missing ls st) = json_data st"
  by (simp_all add: remove_missing_def Let_def)

lemma process_frame_zero_width:
  assumes "f_detections f \<noteq> []" and "f_shape1 f = 0"
  shows "process_frame st f = Inl (ZeroDivisionError, st)"
proof -
  obtain d ds where "f_detections f = d # ds"
    using assms(1) by (cases "f_detections f") auto
  then have "process_detections (f_shape1 f) (f_now f) st (f_detections f)
               = Inl (ZeroDivisionError, st)"
    using assms(2) by (simp only: process_detections_zero)
  then show ?thesis
    by (simp add: process_frame_def)
qed

lemma process_frame_counted:
  assumes "\<not> (f_detections f \<noteq> [] \<and> f_shape1 f = 0)"
  shows "\<exists>st2. counted_pass st f st2
           \<and> process_frame st f =
               (if prev_time st \<noteq> 0 \<and> f_curr_time f = prev_time st
                then Inl (ZeroDivisionError, st2)
                else Inr (st2\<lparr>prev_time := f_curr_time f\<rparr>))"
proof -
  have "\<exists>st1. process_detections (f_shape1 f) (f_now f) st (f_detections f) = Inr st1
           \<and> frame_id st1 = frame_id st \<and> json_data st1 = json_data st
           \<and> prev_time st1 = prev_time st
           \<and> (\<forall>obs. summary_matches st obs
                \<longrightarrow> summary_matches st1
                      (obs @ map (observe (frame_id st) (f_shape1 f)) (f_detections f)))"
  proof (cases "f_shape1 f = 0")
    case True
    with assms have "f_detections f = []" by simp
    then show ?thesis by simp
  next
    case False
    have "\<exists>st1. process_detections (f_shape1 f) (f_now f) st (f_detections f) = Inr st1"
      using process_detections_total [OF False, of "f_now f" st "f_detections f"] by blast
    then obtain st1 where
      1: "process_detections (f_shape1 f) (f_now f) st (f_detections f) = Inr st1" by blast
    have "frame_id st1 = frame_id st \<and> json_data st1 = json_data st
           \<and> prev_time st1 = prev_time st
           \<and> (summary_matches st obs
                \<longrightarrow> summary_matches st1
                      (obs @ map (observe (frame_id st) (f_shape1 f)) (f_detections f)))" for obs
      using process_detections_total [OF False, of "f_now f" st "f_detections f" obs] 1 by auto
    with 1 show ?thesis by blast
  qed
  then obtain st1 where 1:
    "process_detections (f_shape1 f) (f_now f) st (f_detections f) = Inr st1"
    "frame_id st1 = frame_id st" "json_data st1 = json_data st" "prev_time st1 = prev_time st"
    "\<And>obs. summary_matches st obs
        \<Longrightarrow> summary_matches st1
              (obs @ map (observe (frame_id st) (f_shape1 f)) (f_detections f))"
    by blast
  define st2 where
    "st2 = count_frame (f_stamp f) (remove_missing (map label_of (f_detections f)) st1)"
  have sm: "summary_matches st2 obs = summary_matches st1 obs" for obs
    by (rule summary_matches_cong) (simp add: st2_def count_frame_facts remove_missing_facts)
  have "counted_pass st f st2"
    unfolding counted_pass_def
    using 1(2,3,4) 1(5)
    by (simp add: sm) (simp add: st2_def count_frame_facts remove_missing_facts)
  moreover have "process_frame st f =
               (if prev_time st \<noteq> 0 \<and> f_curr_time f = prev_time st
                then Inl (ZeroDivisionError, st2)
                else Inr (st2\<lparr>prev_time := f_curr_time f\<rparr>))"
  proof -
    have "process_frame st f = update_fps (f_curr_time f) st2"
      using 1(1) by (simp add: process_frame_def st2_def)
    moreover have "prev_time st2 = prev_time st"
      using 1(4) by (simp add: st2_def count_frame_facts remove_missing_facts)
    ultimately show ?thesis
      by (simp add: update_fps_def truediv_def)
  qed
  ultimately show ?thesis by blast
qed

lemma observations_simps:
  "observations n [] = []"
  "observations n (f # fs) =
     map (observe n (f_shape1 f)) (f_detections f) @ observations (Suc n) fs"
  by (simp_all add: observations_def)

lemma save_stamps_simps:
  "save_stamps n [] = []"
  "save_stamps n (f # fs) =
     (if Suc n mod 30 = 0 then [f_stamp f] else []) @ save_stamps (Suc n) fs"
  by (simp_all add: save_stamps_def)

lemma keys_update: "map fst (AList.update k v al) = add_key k (map fst al)"
  by (simp add: update_keys add_key_def)

lemma counted_pass_keys:
  assumes "counted_pass st f st2"
  shows "map fst (json_data st2) =
           fold add_key (if Suc (frame_id st) mod 30 = 0 then [f_stamp f] else [])
             (map fst (json_data st))"
  using assms by (simp add: counted_pass_def keys_update)

lemma capture_loop_tracks:
  assumes "summary_matches st obs"
  shows "frame_id (snd (capture_loop st evs))
           = frame_id st + length (counted (prev_time st) evs)
       \<and> summary_matches (snd (capture_loop st evs))
           (obs @ observations (frame_id st) (counted (prev_time st) evs))
       \<and> map fst (json_data (snd (capture_loop st evs)))
           = fold add_key (save_stamps (frame_id st) (counted (prev_time st) evs))
               (map fst (json_data st))"
  using assms
proof (induction st evs arbitrary: obs rule: capture_loop.induct)
  case (1 st)
  then show ?case by (simp add: observations_simps save_stamps_simps)
next
  case (2 st evs)
  then show ?case by simp
next
  case (3 st evs)
  then show ?case by (simp add: observations_simps save_stamps_simps)
next
  case (4 st f evs)
  show ?case
  proof (cases "f_detections f \<noteq> [] \<and> f_shape1 f = 0")
    case True
    then have "process_frame st f = Inl (ZeroDivisionError, st)"
      using process_frame_zero_width by blast
    with True "4.prems" show ?thesis
      by (simp add: observations_simps save_stamps_simps)
  next
    case False
    obtain st2 where pass: "counted_pass st f st2"
      and pf: "process_frame st f =
               (if prev_time st \<noteq> 0 \<and> f_curr_time f = prev_time st
                then Inl (ZeroDivisionError, st2)
                else Inr (st2\<lparr>prev_time := f_curr_time f\<rparr>))"
      using process_frame_counted [OF False] by blast
    have fid: "frame_id st2 = Suc (frame_id st)"
      using pass by (simp add: counted_pass_def)
    have sm: "summary_matches st2
                (obs @ map (observe (frame_id st) (f_shape1 f)) (f_detections f))"
      using pass "4.prems" by (simp add: counted_pass_def)
    have keys: "map fst (json_data st2) =
           fold add_key (if Suc (frame_id st) mod 30 = 0 then [f_stamp f] else [])
             (map fst (json_data st))"
      using pass by (rule counted_pass_keys)
    show ?thesis
    proof (cases "(prev_time st \<noteq> 0 \<and> f_curr_time f = prev_time st) \<or> f_key_q f")
      case True
      then have c: "counted (prev_time st) (Frame f # evs) = [f]"
        using False by auto
      have "snd (capture_loop st (Frame f # evs)) = st2
            \<or> snd (capture_loop st (Frame f # evs)) = st2\<lparr>prev_time := f_curr_time f\<rparr>"
        using True pf by auto
      then show ?thesis
        using fid sm keys summary_matches_cong [of "st2\<lparr>prev_time := f_curr_time f\<rparr>" st2]
        unfolding c
        by (auto simp: observations_simps save_stamps_simps)
    next
      case stop: False
      define st3 where "st3 = st2\<lparr>prev_time := f_curr_time f\<rparr>"
      have pf3: "process_frame st f = Inr st3"
        using stop pf by (auto simp: st3_def)
      have c: "counted (prev_time st) (Frame f # evs) = f # counted (f_curr_time f) evs"
        using False stop by auto
      have sm3: "summary_matches st3
                (obs @ map (observe (frame_id st) (f_shape1 f)) (f_detections f))"
        using sm summary_matches_cong [of st3 st2] by (simp add: st3_def)
      have key_q: "\<not> f_key_q f"
        using stop by simp
      note IH = "4.IH" [OF pf3 key_q sm3]
      have loop: "capture_loop st (Frame f # evs) = capture_loop st3 evs"
        using pf3 key_q by simp
      have st3: "frame_id st3 = Suc (frame_id st)" "prev_time st3 = f_curr_time f"
        "json_data st3 = json_data st2"
        using fid by (simp_all add: st3_def)
      show ?thesis
        unfolding loop c
        using IH keys
        by (simp add: st3 observations_simps save_stamps_simps)
    qed
  qed
qed

lemma initial_matches: "summary_matches (initial_state json0) []"
  by (simp add: summary_matches_def initial_state_def summary_of_def of_label_def)

lemma capture_loop_history:
  "frame_id (snd (capture_loop (initial_state json0) evs)) = length (counted 0 evs)"
  "summary_matches (snd (capture_loop (initial_state json0) evs)) (history evs)"
  "map fst (json_data (snd (capture_loop (initial_state json0) evs)))
     = fold add_key (save_stamps 0 (counted 0 evs)) (map fst json0)"
  using capture_loop_tracks [OF initial_matches, of json0 evs]
  by (simp_all add: history_def initial_state_def)

section \<open>One pass and the whole loop\<close>

text \<open>The state in which a frame of a run is processed is the state the loop has reached
  after the events before it.\<close>

lemma capture_loop_append:
  "capture_loop st (pre @ evs) =
     (if fst (capture_loop st pre) then capture_loop st pre
      else capture_loop (snd (capture_loop st pre)) evs)"
  by (induction st pre rule: capture_loop.induct)
     (auto split: sum.splits prod.splits)

lemma snapshot_of_prev_time: "snapshot_of (st\<lparr>prev_time := t\<rparr>) = snapshot_of st"
  by (simp add: snapshot_of_def)

text \<open>A pass that ends, by returning or by an exception, either has changed nothing or
  has counted its frame.\<close>

lemma pass_result:
  assumes "process_frame st f = Inr st' \<or> process_frame st f = Inl (e, st')"
  shows "(st' = st \<and> process_frame st f = Inl (e, st'))
         \<or> (frame_id st' = Suc (frame_id st)
             \<and> json_data st' =
                 (if frame_id st' mod 30 = 0
                  then AList.update (f_stamp f) (snapshot_of st') (json_data st)
                  else json_data st)
             \<and> (\<forall>obs. summary_matches st obs
                   \<longrightarrow> summary_matches st'
                         (obs @ map (observe (frame_id st) (f_shape1 f)) (f_detections f))))"
proof (cases "f_detections f \<noteq> [] \<and> f_shape1 f = 0")
  case True
  then have "process_frame st f = Inl (ZeroDivisionError, st)"
    by (simp add: process_frame_zero_width)
  with assms show ?thesis by simp
next
  case False
  from process_frame_counted [OF False, of st] obtain st2 where
    cp: "counted_pass st f st2" and
    pf: "process_frame st f =
           (if prev_time st \<noteq> 0 \<and> f_curr_time f = prev_time st
            then Inl (ZeroDivisionError, st2)
            else Inr (st2\<lparr>prev_time := f_curr_time f\<rparr>))"
    by blast
  from assms pf have "st' = st2 \<or> st' = st2\<lparr>prev_time := f_curr_time f\<rparr>"
    by (auto split: if_splits)
  then have fid: "frame_id st' = frame_id st2" and js: "json_data st' = json_data st2"
    and sn: "snapshot_of st' = snapshot_of st2"
    and sm: "species_summary st' = species_summary st2"
    by (auto simp: snapshot_of_prev_time)
  from cp have a: "frame_id st' = Suc (frame_id st)"
    by (simp add: counted_pass_def fid)
  from cp have b: "json_data st' =
      (if frame_id st' mod 30 = 0
       then AList.update (f_stamp f) (snapshot_of st') (json_data st) else json_data st)"
    by (simp add: counted_pass_def fid js sn)
  from cp have c: "\<forall>obs. summary_matches st obs
       \<longrightarrow> summary_matches st'
             (obs @ map (observe (frame_id st) (f_shape1 f)) (f_detections f))"
    by (simp add: counted_pass_def summary_matches_cong [OF sm])
  from a b c show ?thesis by blast
qed

lemma snapshot_rows:
  assumes "summary_matches st obs"
  shows "\<exists>rows. snapshot_of st = JObj rows
           \<and> (\<forall>l. map_of rows l = expected_row (of_label l obs))"
proof -
  have "map_of (map (\<lambda>(lbl, info). (lbl, summary_row info)) (species_summary st)) l
          = expected_row (of_label l obs)" for l
  proof -
    have "map_of (map (\<lambda>(lbl, info). (lbl, summary_row info)) (species_summary st)) l
            = map_option summary_row (map_of (species_summary st) l)"
      by (simp add: map_of_map)
    also have "\<dots> = map_option summary_row (summary_of (of_label l obs))"
      using assms by (simp add: summary_matches_def)
    finally show ?thesis by (simp only: expected_row_summary)
  qed
  then show ?thesis by (simp add: snapshot_of_def)
qed

lemma finally_block_json:
  "json_data (finally_block ts st) =
     AList.update ''nearest_encounter'' (nearest_json (nearest_encounter st))
       (AList.update ts (snapshot_of st) (json_data st))"
  "nearest_encounter (finally_block ts st) = nearest_encounter st"
  by (simp_all add: finally_block_def save_species_summary_to_json_def Let_def snapshot_of_def)

section \<open>The runs of the examples\<close>

text \<open>\<open>fl\<close> at numbers of the program: the double of \<open>0.1\<close>; the product in
  \<open>get_distance_meters\<close>; and three centroids of a frame 2304 pixels wide at which the
  angle logged is not the rounding of the exact quotient.\<close>

lemma fl_tenth: "fl (1 / 10) = 3602879701896397 / 36028797018963968"
  by (simp add: fl_literal round_half_even_def)

lemma angle_digits:
  "py_round (fl (fl (368 / 2304) * 180)) 1 = 28.7" "py_round (368 / 2304 * 180) 1 = 28.8"
  "py_round (fl (fl (1328 / 2304) * 180)) 1 = 103.7" "py_round (1328 / 2304 * 180) 1 = 103.8"
  "py_round (fl (fl (1552 / 2304) * 180)) 1 = 121.3" "py_round (1552 / 2304 * 180) 1 = 121.2"
  by (simp_all add: fl_literal py_round_def round_half_even_def)

lemma distance_product_exact: "fl (fl 0.08 * FOCAL_LENGTH_PIXELS) = 96"
  by (simp add: FOCAL_LENGTH_PIXELS_def fl_literal round_half_even_def)

lemma two_boxes_detected:
  "collect_detections 1296 2304 two_boxes = Inr (f_detections two_insects_frame)"
  by (simp add: example_defs box_defs py_int_def truediv_def fl_literal round_half_even_def
        Let_def)

lemma fly_box_detected:
  "collect_detections 1296 2304 fly_box = Inr (f_detections fly_again_frame)"
  by (simp add: example_defs box_defs py_int_def truediv_def fl_literal round_half_even_def
        Let_def)

lemma first_29_end:
  "loop_end [] first_29 =
     \<lparr>prev_centers = [], trajectories = [], prev_time = 39, speed_tracker = [],
      species_summary =
        [(''fly'', \<lparr>count = 1, entry_angle_deg = 229 / 10, exit_angle_deg = 229 / 10,
                    entry_distance_m = 17 / 100, exit_distance_m = 17 / 100\<rparr>),
         (''Cockroach'', \<lparr>count = 1, entry_angle_deg = 251 / 5, exit_angle_deg = 251 / 5,
                          entry_distance_m = 17 / 100, exit_distance_m = 17 / 100\<rparr>)],
      nearest_encounter =
        \<lparr>ne_distance_m = Finite (17 / 100), ne_frame = Some 0,
         ne_label = Some ''Cockroach'', ne_angle_deg = Some (251 / 5)\<rparr>,
      json_data = [], frame_id = 29\<rparr>"
  by (simp add: example_defs eval_defs upt_rec)

lemma frame_30_pass:
  "process_frame (loop_end [] first_29) fly_again_frame = Inr example_state_30"
  by (simp add: first_29_end) (simp add: example_defs eval_defs)

lemma example_run_end:
  "capture_loop (initial_state []) example_run = (True, example_state_31)"
  by (simp add: example_defs eval_defs upt_rec)

lemma example_final_run:
  "run [] [Frame example_frame] ''2025-01-01T10:00:02.000000'' = Some example_final"
  by (simp add: example_frame_def example_final_def eval_defs)

section \<open>Snapshots every 30 frames\<close>

text \<open>
  C6: a pass that returns has counted its frame; it has written the snapshot of
  \<open>species_summary\<close> into the log under the frame's timestamp when the new count is a
  multiple of 30, and has left the log as it was at every other count. A pass that ends
  with an exception either has changed neither the counter nor the log (line 193 raised)
  or has done the same as a pass that returns (line 301 raised, after the counter). Over
  a whole run the counter is the number of counted frames, and the keys of the log are
  those it started with and the timestamps of the frames that brought the counter to 30,
  60, ... When the program ends, the \<open>finally\<close> block has written one more snapshot
  under its own timestamp, and then the \<open>nearest_encounter\<close> record.
\<close>

theorem snapshots_every_30_frames:
  "(process_frame st f = Inr st' \<longrightarrow>
      frame_id st' = Suc (frame_id st)
      \<and> json_data st' =
          (if frame_id st' mod 30 = 0
           then AList.update (f_stamp f) (snapshot_of st') (json_data st)
           else json_data st))
   \<and> (process_frame st f = Inl (e, st') \<longrightarrow>
        (frame_id st' = frame_id st \<and> json_data st' = json_data st)
        \<or> (frame_id st' = Suc (frame_id st)
            \<and> json_data st' =
                (if frame_id st' mod 30 = 0
                 then AList.update (f_stamp f) (snapshot_of st') (json_data st)
                 else json_data st)))
   \<and> frame_id (loop_end json0 evs) = length (counted 0 evs)
   \<and> map fst (json_data (loop_end json0 evs))
        = fold add_key (save_stamps 0 (counted 0 evs)) (map fst json0)
   \<and> (run json0 evs ts = Some fin \<longrightarrow>
        json_data fin =
          AList.update ''nearest_encounter'' (nearest_json (nearest_encounter (loop_end json0 evs)))
            (AList.update ts (snapshot_of (loop_end json0 evs))
               (json_data (loop_end json0 evs))))"
proof -
  have a: "frame_id st' = Suc (frame_id st)
      \<and> json_data st' =
          (if frame_id st' mod 30 = 0
           then AList.update (f_stamp f) (snapshot_of st') (json_data st)
           else json_data st)" if "process_frame st f = Inr st'"
  proof -
    from that have "process_frame st f = Inr st' \<or> process_frame st f = Inl (e, st')"
      by simp
    from pass_result [OF this] that show ?thesis by auto
  qed
  have b: "(frame_id st' = frame_id st \<and> json_data st' = json_data st)
        \<or> (frame_id st' = Suc (frame_id st)
            \<and> json_data st' =
                (if frame_id st' mod 30 = 0
                 then AList.update (f_stamp f) (snapshot_of st') (json_data st)
                 else json_data st))" if "process_frame st f = Inl (e, st')"
  proof -
    from that have "process_frame st f = Inr st' \<or> process_frame st f = Inl (e, st')"
      by simp
    from pass_result [OF this] show ?thesis by auto
  qed
  have c: "frame_id (loop_end json0 evs) = length (counted 0 evs)"
    by (simp only: loop_end_def capture_loop_history)
  have d: "map fst (json_data (loop_end json0 evs))
        = fold add_key (save_stamps 0 (counted 0 evs)) (map fst json0)"
    by (simp only: loop_end_def capture_loop_history)
  have e: "json_data fin =
          AList.update ''nearest_encounter'' (nearest_json (nearest_encounter (loop_end json0 evs)))
            (AList.update ts (snapshot_of (loop_end json0 evs))
               (json_data (loop_end json0 evs)))" if "run json0 evs ts = Some fin"
    using run_SomeD [OF that] by (simp only: loop_end_def finally_block_json)
  from a b c d e show ?thesis by blast
qed

theorem snapshots_every_30_frames_witness:
  "frame_id (loop_end [] first_29) = 29
   \<and> json_data (loop_end [] first_29) = []
   \<and> process_frame (loop_end [] first_29) fly_again_frame = Inr example_state_30
   \<and> frame_id example_state_30 = 30
   \<and> json_data example_state_30 = [(''2025-01-01T10:00:30.000000'', example_snapshot)]
   \<and> process_frame (loop_end [] first_29) (fly_again_frame\<lparr>f_curr_time := 39\<rparr>)
       = Inl (ZeroDivisionError, example_state_30\<lparr>prev_time := 39\<rparr>)
   \<and> process_frame example_state_30 (two_insects_frame\<lparr>f_shape1 := 0\<rparr>)
       = Inl (ZeroDivisionError, example_state_30)
   \<and> process_frame example_state_30
        (quiet_frame\<lparr>f_now := 41, f_curr_time := 42, f_key_q := True\<rparr>)
       = Inr example_state_31
   \<and> frame_id example_state_31 = 31
   \<and> json_data example_state_31 = json_data example_state_30
   \<and> loop_end [] example_run = example_state_31
   \<and> length (counted 0 example_run) = 31
   \<and> save_stamps 0 (counted 0 example_run) = [''2025-01-01T10:00:30.000000'']
   \<and> run [] example_run ''2025-01-01T10:00:32.000000''
       = Some (finally_block ''2025-01-01T10:00:32.000000'' example_state_31)
   \<and> json_data (finally_block ''2025-01-01T10:00:32.000000'' example_state_31)
       = [(''2025-01-01T10:00:30.000000'', example_snapshot),
          (''2025-01-01T10:00:32.000000'', example_snapshot),
          (''nearest_encounter'', example_nearest)]"
proof -
  have a: "process_frame (loop_end [] first_29) (fly_again_frame\<lparr>f_curr_time := 39\<rparr>)
       = Inl (ZeroDivisionError, example_state_30\<lparr>prev_time := 39\<rparr>)"
    by (simp add: first_29_end) (simp add: example_defs eval_defs)
  have b: "process_frame example_state_30 (two_insects_frame\<lparr>f_shape1 := 0\<rparr>)
       = Inl (ZeroDivisionError, example_state_30)"
    by (simp add: example_defs eval_defs)
  have c: "process_frame example_state_30
        (quiet_frame\<lparr>f_now := 41, f_curr_time := 42, f_key_q := True\<rparr>)
       = Inr example_state_31"
    by (simp add: example_defs eval_defs)
  have d1: "length (counted 0 example_run) = 31"
    by (simp add: example_defs upt_rec)
  have d2: "save_stamps 0 (counted 0 example_run) = [''2025-01-01T10:00:30.000000'']"
    by (simp add: example_defs upt_rec save_stamps_simps)
  have e: "run [] example_run ''2025-01-01T10:00:32.000000''
       = Some (finally_block ''2025-01-01T10:00:32.000000'' example_state_31)"
    by (simp add: run_def example_run_end)
  have g1: "frame_id (loop_end [] first_29) = 29"
    by (simp add: first_29_end)
  have g2: "json_data (loop_end [] first_29) = []"
    by (simp add: first_29_end)
  have h1: "frame_id example_state_30 = 30"
    by (simp add: example_state_30_def)
  have h2: "json_data example_state_30 = [(''2025-01-01T10:00:30.000000'', example_snapshot)]"
    by (simp add: example_state_30_def)
  have h3: "frame_id example_state_31 = 31"
    by (simp add: example_state_31_def)
  have h4: "json_data example_state_31 = json_data example_state_30"
    by (simp add: example_state_31_def)
  have i: "loop_end [] example_run = example_state_31"
    by (simp add: loop_end_def example_run_end)
  have j: "json_data (finally_block ''2025-01-01T10:00:32.000000'' example_state_31)
       = [(''2025-01-01T10:00:30.000000'', example_snapshot),
          (''2025-01-01T10:00:32.000000'', example_snapshot),
          (''nearest_encounter'', example_nearest)]"
    by (simp add: finally_block_json snapshot_of_def summary_row_def nearest_json_def
          example_state_30_def example_state_31_def example_snapshot_def example_nearest_def
          py_round_def round_half_even_def)
  show ?thesis
    using snapshots_every_30_frames [of "loop_end [] first_29" fly_again_frame
        example_state_30 ZeroDivisionError "[]" example_run
        "''2025-01-01T10:00:32.000000''"
        "finally_block ''2025-01-01T10:00:32.000000'' example_state_31"]
      snapshots_every_30_frames [of "loop_end [] first_29"
        "fly_again_frame\<lparr>f_curr_time := 39\<rparr>" "example_state_30\<lparr>prev_time := 39\<rparr>"
        ZeroDivisionError "[]" example_run "''2025-01-01T10:00:32.000000''"
        "finally_block ''2025-01-01T10:00:32.000000'' example_state_31"]
      snapshots_every_30_frames [of example_state_30 "two_insects_frame\<lparr>f_shape1 := 0\<rparr>"
        example_state_30 ZeroDivisionError "[]" example_run
        "''2025-01-01T10:00:32.000000''"
        "finally_block ''2025-01-01T10:00:32.000000'' example_state_31"]
      snapshots_every_30_frames [of example_state_30
        "quiet_frame\<lparr>f_now := 41, f_curr_time := 42, f_key_q := True\<rparr>"
        example_state_31 ZeroDivisionError "[]" example_run
        "''2025-01-01T10:00:32.000000''"
        "finally_block ''2025-01-01T10:00:32.000000'' example_state_31"]
    by (intro conjI g1 g2 frame_30_pass h1 h2 a b c h3 h4 i d1 d2 e j)
qed

section \<open>The log schema\<close>

text \<open>
  C2: at every point of a run \<open>species_summary\<close> holds for each label what the detections
  of that label in the frames counted since program start give: their number, and the
  rounded angle and distance of the first and of the latest of them; a label never
  detected has no entry. Every snapshot stores that under its timestamp: the one of a
  pass that brings the frame counter to a multiple of 30 maps each label detected up to
  and including that frame to exactly the five fields \<open>start_distance_m\<close>,
  \<open>end_distance_m\<close>, \<open>start_angle_deg\<close>, \<open>end_angle_deg\<close> and \<open>count\<close>, and no
  other label to anything; so does the snapshot of the \<open>finally\<close> block for the whole
  run, and the log then holds the reserved key \<open>nearest_encounter\<close> with the record of
  line 51.
\<close>

theorem snapshot_schema:
  "(\<forall>l. map_of (species_summary (loop_end json0 evs)) l
          = summary_of (of_label l (history evs)))
   \<and> ((process_frame (loop_end json0 evs) f = Inr st'
         \<or> process_frame (loop_end json0 evs) f = Inl (e, st'))
        \<and> frame_id st' = Suc (frame_id (loop_end json0 evs))
        \<and> frame_id st' mod 30 = 0 \<longrightarrow>
        (\<exists>rows. map_of (json_data st') (f_stamp f) = Some (JObj rows)
           \<and> (\<forall>l. map_of rows l =
                  expected_row
                    (of_label l
                       (history evs
                        @ map (observe (frame_id (loop_end json0 evs)) (f_shape1 f))
                            (f_detections f))))))
   \<and> (run json0 evs ts = Some fin \<longrightarrow>
        map_of (json_data fin) ''nearest_encounter''
          = Some (nearest_json (nearest_encounter fin))
        \<and> (ts \<noteq> ''nearest_encounter'' \<longrightarrow>
             (\<exists>rows. map_of (json_data fin) ts = Some (JObj rows)
                \<and> (\<forall>l. map_of rows l = expected_row (of_label l (history evs))))))"
proof -
  let ?st0 = "loop_end json0 evs"
  have m: "summary_matches ?st0 (history evs)"
    by (simp only: loop_end_def capture_loop_history)
  then have a: "\<forall>l. map_of (species_summary ?st0) l = summary_of (of_label l (history evs))"
    by (simp add: summary_matches_def)
  have b: "(process_frame ?st0 f = Inr st' \<or> process_frame ?st0 f = Inl (e, st'))
        \<and> frame_id st' = Suc (frame_id ?st0) \<and> frame_id st' mod 30 = 0 \<longrightarrow>
        (\<exists>rows. map_of (json_data st') (f_stamp f) = Some (JObj rows)
           \<and> (\<forall>l. map_of rows l =
                  expected_row
                    (of_label l
                       (history evs
                        @ map (observe (frame_id ?st0) (f_shape1 f)) (f_detections f)))))"
  proof (intro impI, elim conjE)
    assume pass: "process_frame ?st0 f = Inr st' \<or> process_frame ?st0 f = Inl (e, st')"
      and fid: "frame_id st' = Suc (frame_id ?st0)" and m30: "frame_id st' mod 30 = 0"
    from pass_result [OF pass] fid have
      js: "json_data st' =
             (if frame_id st' mod 30 = 0
              then AList.update (f_stamp f) (snapshot_of st') (json_data ?st0)
              else json_data ?st0)"
      and sm: "\<forall>obs. summary_matches ?st0 obs
                 \<longrightarrow> summary_matches st'
                       (obs @ map (observe (frame_id ?st0) (f_shape1 f)) (f_detections f))"
      by auto
    from js m30 have "map_of (json_data st') (f_stamp f) = Some (snapshot_of st')"
      by (simp add: update_conv')
    moreover from sm m have "summary_matches st'
        (history evs @ map (observe (frame_id ?st0) (f_shape1 f)) (f_detections f))"
      by blast
    from snapshot_rows [OF this] obtain rows where
      "snapshot_of st' = JObj rows"
      "\<forall>l. map_of rows l =
           expected_row
             (of_label l
                (history evs @ map (observe (frame_id ?st0) (f_shape1 f)) (f_detections f)))"
      by blast
    ultimately show "\<exists>rows. map_of (json_data st') (f_stamp f) = Some (JObj rows)
           \<and> (\<forall>l. map_of rows l =
                  expected_row
                    (of_label l
                       (history evs
                        @ map (observe (frame_id ?st0) (f_shape1 f)) (f_detections f))))"
      by simp
  qed
  have c: "run json0 evs ts = Some fin \<longrightarrow>
        map_of (json_data fin) ''nearest_encounter''
          = Some (nearest_json (nearest_encounter fin))
        \<and> (ts \<noteq> ''nearest_encounter'' \<longrightarrow>
             (\<exists>rows. map_of (json_data fin) ts = Some (JObj rows)
                \<and> (\<forall>l. map_of rows l = expected_row (of_label l (history evs)))))"
  proof (intro impI conjI)
    assume r: "run json0 evs ts = Some fin"
    from run_SomeD [OF r] have fin: "fin = finally_block ts ?st0"
      by (simp only: loop_end_def)
    show "map_of (json_data fin) ''nearest_encounter''
              = Some (nearest_json (nearest_encounter fin))"
      by (simp add: fin finally_block_json update_conv')
    assume ts: "ts \<noteq> ''nearest_encounter''"
    from snapshot_rows [OF m] obtain rows where
      rows: "snapshot_of ?st0 = JObj rows"
        "\<forall>l. map_of rows l = expected_row (of_label l (history evs))"
      by blast
    have "map_of (json_data fin) ts = Some (JObj rows)"
      using ts by (simp add: fin finally_block_json update_conv' rows)
    with rows show "\<exists>rows. map_of (json_data fin) ts = Some (JObj rows)
                \<and> (\<forall>l. map_of rows l = expected_row (of_label l (history evs)))"
      by blast
  qed
  show ?thesis by (rule conjI [OF a conjI [OF b c]])
qed

theorem snapshot_schema_witness:
  "map_of (species_summary (loop_end [] first_29)) ''fly''
     = Some \<lparr>count = 1, entry_angle_deg = 229 / 10, exit_angle_deg = 229 / 10,
             entry_distance_m = 17 / 100, exit_distance_m = 17 / 100\<rparr>
   \<and> map o_label (history first_29) = [''fly'', ''Cockroach'']
   \<and> map o_distance_m (history first_29) = [fl (96 / 566), fl (96 / 565)]
   \<and> process_frame (loop_end [] first_29) fly_again_frame = Inr example_state_30
   \<and> frame_id example_state_30 = Suc (frame_id (loop_end [] first_29))
   \<and> frame_id example_state_30 mod 30 = 0
   \<and> map o_label
        (history first_29
         @ map (observe (frame_id (loop_end [] first_29)) (f_shape1 fly_again_frame))
             (f_detections fly_again_frame))
       = [''fly'', ''Cockroach'', ''fly'']
   \<and> map_of (json_data example_state_30) (f_stamp fly_again_frame) = Some example_snapshot
   \<and> run [] example_run ''2025-01-01T10:00:32.000000''
       = Some (finally_block ''2025-01-01T10:00:32.000000'' example_state_31)
   \<and> map o_label (history example_run) = [''fly'', ''Cockroach'', ''fly'']
   \<and> map_of (json_data (finally_block ''2025-01-01T10:00:32.000000'' example_state_31))
        ''2025-01-01T10:00:32.000000'' = Some example_snapshot
   \<and> map_of (json_data (finally_block ''2025-01-01T10:00:32.000000'' example_state_31))
        ''nearest_encounter'' = Some example_nearest
   \<and> ''2025-01-01T10:00:32.000000'' \<noteq> ''nearest_encounter''"
proof -
  have a: "map_of (species_summary (loop_end [] first_29)) ''fly''
     = Some \<lparr>count = 1, entry_angle_deg = 229 / 10, exit_angle_deg = 229 / 10,
             entry_distance_m = 17 / 100, exit_distance_m = 17 / 100\<rparr>"
    by (simp add: first_29_end)
  have b1: "map o_label (history first_29) = [''fly'', ''Cockroach'']"
    by (simp add: example_defs history_def observations_simps observe_def upt_rec)
  have b2: "map o_distance_m (history first_29) = [fl (96 / 566), fl (96 / 565)]"
    by (simp add: example_defs history_def observations_simps observe_def upt_rec)
  have c1: "frame_id example_state_30 = Suc (frame_id (loop_end [] first_29))"
    by (simp add: first_29_end example_state_30_def)
  have c2: "frame_id example_state_30 mod 30 = 0"
    by (simp add: example_state_30_def)
  have d: "map o_label
        (history first_29
         @ map (observe (frame_id (loop_end [] first_29)) (f_shape1 fly_again_frame))
             (f_detections fly_again_frame))
       = [''fly'', ''Cockroach'', ''fly'']"
    by (simp add: b1 fly_again_frame_def observe_def)
  have e: "map_of (json_data example_state_30) (f_stamp fly_again_frame)
             = Some example_snapshot"
    by (simp add: example_state_30_def fly_again_frame_def)
  have g: "run [] example_run ''2025-01-01T10:00:32.000000''
       = Some (finally_block ''2025-01-01T10:00:32.000000'' example_state_31)"
    by (simp add: run_def example_run_end)
  have h: "map o_label (history example_run) = [''fly'', ''Cockroach'', ''fly'']"
    by (simp add: example_defs history_def observations_simps observe_def upt_rec)
  have j: "json_data (finally_block ''2025-01-01T10:00:32.000000'' example_state_31)
       = [(''2025-01-01T10:00:30.000000'', example_snapshot),
          (''2025-01-01T10:00:32.000000'', example_snapshot),
          (''nearest_encounter'', example_nearest)]"
    by (simp add: finally_block_json snapshot_of_def summary_row_def nearest_json_def
          example_state_30_def example_state_31_def example_snapshot_def example_nearest_def
          py_round_def round_half_even_def)
  have j1: "map_of (json_data (finally_block ''2025-01-01T10:00:32.000000'' example_state_31))
        ''2025-01-01T10:00:32.000000'' = Some example_snapshot"
    by (simp add: j)
  have j2: "map_of (json_data (finally_block ''2025-01-01T10:00:32.000000'' example_state_31))
        ''nearest_encounter'' = Some example_nearest"
    by (simp add: j)
  have k: "''2025-01-01T10:00:32.000000'' \<noteq> ''nearest_encounter''"
    by simp
  show ?thesis
    using snapshot_schema [of "[]" first_29 fly_again_frame example_state_30
        ZeroDivisionError "''2025-01-01T10:00:32.000000''"
        "finally_block ''2025-01-01T10:00:32.000000'' example_state_31"]
      snapshot_schema [of "[]" example_run fly_again_frame example_state_30
        ZeroDivisionError "''2025-01-01T10:00:32.000000''"
        "finally_block ''2025-01-01T10:00:32.000000'' example_state_31"]
    by (intro conjI a b1 b2 frame_30_pass c1 c2 d e g h j1 j2 k)
qed

section \<open>The nearest encounter\<close>

text \<open>
  C1 says that the record is the closest detection observed so far. It is not: in a frame
  of 2304 by 1296 pixels the boxes \<open>two_boxes\<close> become a fly 566 pixels wide, at
  96/566 m, and then a cockroach 565 pixels wide, at 96/565 m. Line 223 stores the fly's
  distance rounded to 0.17, line 221 compares the cockroach's unrounded 0.1699... with
  it, and the record ends with the cockroach's label and angle, though the fly is the
  closer one and \<open>min(detections, key=lambda d: d[5])\<close> of line 269 names the fly in
  the same pass. The stored distance is that of neither.
\<close>

theorem nearest_encounter_not_closest:
  "collect_detections 1296 2304 two_boxes = Inr (f_detections two_insects_frame)
   \<and> f_detections two_insects_frame
       = [(10, 20, 576, 81, ''fly'', fl (96 / 566), 0.9),
          (360, 101, 925, 182, ''Cockroach'', fl (96 / 565), 0.8)]
   \<and> fl (96 / 566) < fl (96 / 565)
   \<and> nearest_track (f_detections two_insects_frame)
       = Some (10, 20, 576, 81, ''fly'', fl (96 / 566), 0.9)
   \<and> process_frame (initial_state []) two_insects_frame
       = Inr (loop_end [] [Frame two_insects_frame])
   \<and> nearest_encounter (loop_end [] [Frame two_insects_frame])
       = \<lparr>ne_distance_m = Finite (17 / 100), ne_frame = Some 0,
          ne_label = Some ''Cockroach'', ne_angle_deg = Some (251 / 5)\<rparr>"
proof -
  have a: "nearest_track (f_detections two_insects_frame)
       = Some (10, 20, 576, 81, ''fly'', fl (96 / 566), 0.9)"
    by (simp add: two_insects_frame_def fl_literal round_half_even_def)
  have b: "process_frame (initial_state []) two_insects_frame
       = Inr (loop_end [] [Frame two_insects_frame])"
    by (simp add: loop_end_def split: sum.splits prod.splits)
       (simp add: two_insects_frame_def eval_defs)
  have c: "nearest_encounter (loop_end [] [Frame two_insects_frame])
       = \<lparr>ne_distance_m = Finite (17 / 100), ne_frame = Some 0,
          ne_label = Some ''Cockroach'', ne_angle_deg = Some (251 / 5)\<rparr>"
    by (simp add: loop_end_def two_insects_frame_def eval_defs)
  have d: "fl (96 / 566) < fl (96 / 565)"
    by (simp add: fl_literal round_half_even_def)
  have e: "f_detections two_insects_frame
       = [(10, 20, 576, 81, ''fly'', fl (96 / 566), 0.9),
          (360, 101, 925, 182, ''Cockroach'', fl (96 / 565), 0.8)]"
    by (simp add: two_insects_frame_def)
  show ?thesis
    by (intro conjI two_boxes_detected e d a b c)
qed

end
